theory Spec2Isabelle
  imports Complex_Main "HOL-Library.Multiset"
begin

text \<open>
  A shallow embedding of the conversation state of the application Another I: the
  folder collection and its handlers, the life of a sent message across its awaited
  requests, the chat and summarize routes, and the parser of ChatGPT exports. Each
  definition follows the function of the source it is named after. The sources are
  \<^item> the component \<open>Home\<close> with its handlers, which follows the model-listing route in
    \<^verbatim>\<open>src/app/api/title/route.ts\<close> (from \<^verbatim>\<open>'use client'\<close>, line 510);
  \<^item> the summarize route, in the same file (from \<^verbatim>\<open>SUMMARY_PROMPT\<close>, line 149);
  \<^item> the chat route, \<^verbatim>\<open>src/app/api/chat/route.ts\<close>;
  \<^item> the import dialog with \<open>parseChatGPTExport\<close>, \<^verbatim>\<open>unnamed/part_000\<close>;
  \<^item> the explorer with its move menu, in \<^verbatim>\<open>src/components/SearchDialog.tsx\<close>.
\<close>

section \<open>JavaScript values\<close>

text \<open>
  A JavaScript string is a sequence of UTF-16 code units; \<open>length\<close>, \<open>slice\<close> and
  \<open>includes\<close> count and compare code units. The literals of the source that are not
  ASCII are given by their code units.
\<close>

type_synonym jsstring = "nat list"

definition ascii :: "string \<Rightarrow> jsstring" where
  "ascii s = map of_char s"

text \<open>The decimal digits of a number, as a template literal renders it.\<close>

function digits :: "nat \<Rightarrow> jsstring" where
  "digits n = (if n < 10 then [48 + n] else digits (n div 10) @ [48 + n mod 10])"
  by pat_completeness auto
termination
  by (relation "measure (\<lambda>n. n)") auto

definition toString :: "int \<Rightarrow> jsstring" where
  "toString i = (if i < 0 then 45 # digits (nat (- i)) else digits (nat i))"

text \<open>\<open>s.slice(0, n)\<close> and \<open>s.length\<close> are \<open>take n s\<close> and \<open>length s\<close>.\<close>

fun startsWith :: "jsstring \<Rightarrow> jsstring \<Rightarrow> bool" where
  "startsWith s [] = True"
| "startsWith [] (p # ps) = False"
| "startsWith (c # cs) (p # ps) = (c = p \<and> startsWith cs ps)"

fun includes_str :: "jsstring \<Rightarrow> jsstring \<Rightarrow> bool" where
  "includes_str [] pat = (pat = [])"
| "includes_str (c # cs) pat = (startsWith (c # cs) pat \<or> includes_str cs pat)"

text \<open>
  The white space and line terminators that \<open>String.prototype.trim\<close> strips
  (ECMAScript WhiteSpace and LineTerminator).
\<close>

definition isWhiteSpace :: "nat \<Rightarrow> bool" where
  "isWhiteSpace c =
     (c \<in> {9, 10, 11, 12, 13, 32, 160, 5760, 8232, 8233, 8239, 8287, 12288, 65279}
      \<or> (8192 \<le> c \<and> c \<le> 8202))"

definition trim :: "jsstring \<Rightarrow> jsstring" where
  "trim s = rev (dropWhile isWhiteSpace (rev (dropWhile isWhiteSpace s)))"

fun join :: "jsstring list \<Rightarrow> jsstring \<Rightarrow> jsstring" where
  "join [] sep = []"
| "join [p] sep = p"
| "join (p # q # ps) sep = p @ sep @ join (q # ps) sep"

text \<open>
  A \<open>Date\<close> holds a time value in milliseconds, or is invalid. \<open>new Date(t)\<close> for a
  number \<open>t\<close> truncates it towards zero and is invalid beyond 8.64e15 milliseconds.
\<close>

datatype Date = Date int | Invalid_Date

definition newDate :: "rat \<Rightarrow> Date" where
  "newDate t =
     (if \<bar>t\<bar> > 8640000000000000 then Invalid_Date
      else Date (if t < 0 then \<lceil>t\<rceil> else \<lfloor>t\<rfloor>))"

text \<open>
  A thrown value. The wording of a \<open>TypeError\<close> is the engine's (here V8's).
\<close>

datatype thrown = TypeError jsstring | Error jsstring

definition message_of :: "thrown \<Rightarrow> jsstring" where
  "message_of e = (case e of TypeError m \<Rightarrow> m | Error m \<Rightarrow> m)"

section \<open>The data model (the interfaces of the component \<open>Home\<close>)\<close>

datatype Role = user | assistant

record Message =
  m_id :: jsstring
  role :: Role
  content :: jsstring
  timestamp :: Date

record ConversationTag =
  tag_id :: jsstring
  tag_name :: jsstring
  color :: jsstring

record Conversation =
  c_id :: jsstring
  title :: jsstring
  messages :: "Message list"
  documentContent :: jsstring
  tags :: "ConversationTag list"
  isPinned :: bool
  createdAt :: Date
  updatedAt :: Date

record Folder =
  f_id :: jsstring
  name :: jsstring
  conversations :: "Conversation list"
  isExpanded :: bool

definition NEW_CONVERSATION_TITLE :: jsstring where
  \<comment> \<open>the placeholder title of a conversation (Japanese: new conversation)\<close>
  "NEW_CONVERSATION_TITLE =
    [26032, 12375, 12356, 20250, 35441]"

definition NEW_FOLDER_NAME :: jsstring where
  \<comment> \<open>the name of a created folder (Japanese: new folder)\<close>
  "NEW_FOLDER_NAME =
    [26032, 12375, 12356, 12501, 12457, 12523, 12480]"

definition INITIAL_FOLDER_NAME :: jsstring where
  \<comment> \<open>the name of the initial folder (Japanese: conversations)\<close>
  "INITIAL_FOLDER_NAME =
    [20250, 35441]"


section \<open>The state of the component \<open>Home\<close> and its handlers\<close>

text \<open>
  The component state: the folder collection, the id of the active conversation
  (\<open>None\<close> is \<open>null\<close>), the loading flag, and what was written with
  \<open>console.error\<close> (label and thrown value, oldest first).
\<close>

record HomeState =
  folders :: "Folder list"
  activeConversationId :: "jsstring option"
  isLoading :: bool
  console :: "(jsstring \<times> thrown) list"

definition initialState :: HomeState where
  "initialState =
     \<lparr>folders = [\<lparr>f_id = ascii ''folder-1'', name = INITIAL_FOLDER_NAME,
                   conversations = [], isExpanded = True\<rparr>],
      activeConversationId = None, isLoading = False, console = []\<rparr>"

text \<open>\<open>folders.flatMap(f => f.conversations).find(c => c.id === convId)\<close>\<close>

definition findConversation :: "jsstring \<Rightarrow> Folder list \<Rightarrow> Conversation option" where
  "findConversation convId fs = find (\<lambda>c. c_id c = convId) (concat (map conversations fs))"

definition handleConversationSelect :: "jsstring \<Rightarrow> HomeState \<Rightarrow> HomeState" where
  "handleConversationSelect convId s = s\<lparr>activeConversationId := Some convId\<rparr>"

text \<open>
  The updater of \<open>handleNewConversation\<close> and of the implicit creation in
  \<open>handleSendMessage\<close>: it looks for the new id in the first folder only, returns
  \<open>prev\<close> when it is there, and puts the new conversation in front of the first folder
  otherwise. \<open>updated[0].conversations\<close> throws on an empty collection. The source
  assigns to \<open>updated[0].conversations\<close>, and \<open>updated[0]\<close> is the folder object of
  \<open>prev\<close> too; the model returns the collection the updater returns, which is the state
  from then on.
\<close>

definition prependToFirstFolder :: "Conversation \<Rightarrow> Folder list \<Rightarrow> thrown + Folder list" where
  "prependToFirstFolder newConv prev =
     (case prev of
        [] \<Rightarrow> Inl (TypeError (ascii ''Cannot read properties of undefined (reading 'conversations')''))
      | first # rest \<Rightarrow>
          if list_ex (\<lambda>c. c_id c = c_id newConv) (conversations first) then Inr prev
          else Inr (first\<lparr>conversations := newConv # conversations first\<rparr> # rest))"

text \<open>
  \<open>now\<close> is the reading of the clock (\<open>Date.now()\<close>, \<open>new Date()\<close>) during the
  handler.
\<close>

definition handleNewConversation :: "int \<Rightarrow> HomeState \<Rightarrow> thrown + HomeState" where
  "handleNewConversation now s =
     (let newId = ascii ''conv-'' @ toString now;
          newConv = \<lparr>c_id = newId, title = NEW_CONVERSATION_TITLE, messages = [],
                     documentContent = [], tags = [], isPinned = False,
                     createdAt = Date now, updatedAt = Date now\<rparr>
      in case prependToFirstFolder newConv (folders s) of
           Inl e \<Rightarrow> Inl e
         | Inr fs \<Rightarrow> Inr (s\<lparr>folders := fs, activeConversationId := Some newId\<rparr>))"

definition handleFolderCreate :: "int \<Rightarrow> Folder list \<Rightarrow> Folder list" where
  "handleFolderCreate now prev =
     prev @ [\<lparr>f_id = ascii ''folder-'' @ toString now, name = NEW_FOLDER_NAME,
              conversations = [], isExpanded = True\<rparr>]"

definition handleFolderRename :: "jsstring \<Rightarrow> jsstring \<Rightarrow> Folder list \<Rightarrow> Folder list" where
  "handleFolderRename folderId newName prev =
     map (\<lambda>f. if f_id f = folderId then f\<lparr>name := newName\<rparr> else f) prev"

text \<open>
  \<open>handleFolderDelete\<close>: nothing happens on a collection of at most one folder;
  otherwise the active conversation is cleared when the first folder with the id holds it,
  and every folder with the id is filtered out.
\<close>

definition handleFolderDelete :: "jsstring \<Rightarrow> HomeState \<Rightarrow> HomeState" where
  "handleFolderDelete folderId s =
     (if length (folders s) \<le> 1 then s
      else
        let folderToDelete = find (\<lambda>f. f_id f = folderId) (folders s);
            active =
              (case folderToDelete of
                 None \<Rightarrow> activeConversationId s
               | Some f \<Rightarrow>
                   if list_ex (\<lambda>c. Some (c_id c) = activeConversationId s) (conversations f)
                   then None else activeConversationId s)
        in s\<lparr>folders := filter (\<lambda>f. f_id f \<noteq> folderId) (folders s),
             activeConversationId := active\<rparr>)"

definition handleConversationDelete :: "jsstring \<Rightarrow> HomeState \<Rightarrow> HomeState" where
  "handleConversationDelete convId s =
     s\<lparr>folders :=
          map (\<lambda>folder. folder\<lparr>conversations :=
                 filter (\<lambda>c. c_id c \<noteq> convId) (conversations folder)\<rparr>) (folders s),
        activeConversationId :=
          (if Some convId = activeConversationId s then None else activeConversationId s)\<rparr>"

text \<open>
  \<open>handleConversationMove\<close>, first pass: every folder that holds a conversation with the
  id loses all of them, and the variable \<open>conversation\<close> is assigned the one found, so it
  ends as the one of the last such folder.
\<close>

fun removeFromFolders ::
  "jsstring \<Rightarrow> Conversation option \<Rightarrow> Folder list \<Rightarrow> Conversation option \<times> Folder list" where
  "removeFromFolders convId conversation [] = (conversation, [])"
| "removeFromFolders convId conversation (folder # rest) =
     (case find (\<lambda>c. c_id c = convId) (conversations folder) of
        Some conv \<Rightarrow>
          (case removeFromFolders convId (Some conv) rest of
             (conversation', updated) \<Rightarrow>
               (conversation',
                folder\<lparr>conversations := filter (\<lambda>c. c_id c \<noteq> convId) (conversations folder)\<rparr>
                  # updated))
      | None \<Rightarrow>
          (case removeFromFolders convId conversation rest of
             (conversation', updated) \<Rightarrow> (conversation', folder # updated)))"

text \<open>Second pass: the conversation goes in front of every folder with the target id.\<close>

definition handleConversationMove :: "jsstring \<Rightarrow> jsstring \<Rightarrow> Folder list \<Rightarrow> Folder list" where
  "handleConversationMove convId targetFolderId prev =
     (case removeFromFolders convId None prev of
        (Some conversation, updated) \<Rightarrow>
          map (\<lambda>folder. if f_id folder = targetFolderId
                         then folder\<lparr>conversations := conversation # conversations folder\<rparr>
                         else folder) updated
      | (None, updated) \<Rightarrow> updated)"

definition handleImport :: "Conversation list \<Rightarrow> jsstring \<Rightarrow> HomeState \<Rightarrow> HomeState" where
  "handleImport convs targetFolderId s =
     s\<lparr>folders :=
          map (\<lambda>folder. if f_id folder \<noteq> targetFolderId then folder
                         else folder\<lparr>conversations := convs @ conversations folder\<rparr>) (folders s),
        activeConversationId :=
          (case convs of [] \<Rightarrow> activeConversationId s | c # _ \<Rightarrow> Some (c_id c))\<rparr>"

text \<open>
  The handlers below all have the shape
  \<open>setFolders(prev => prev.map(folder => ({...folder, conversations:
  folder.conversations.map(conv => ...)})))\<close>.
\<close>

definition mapConversations :: "(Conversation \<Rightarrow> Conversation) \<Rightarrow> Folder list \<Rightarrow> Folder list" where
  "mapConversations g prev =
     map (\<lambda>folder. folder\<lparr>conversations := map g (conversations folder)\<rparr>) prev"

definition togglePin :: "jsstring \<Rightarrow> Conversation \<Rightarrow> Conversation" where
  "togglePin convId conv =
     (if c_id conv = convId then conv\<lparr>isPinned := \<not> isPinned conv\<rparr> else conv)"

definition handleTogglePin :: "jsstring \<Rightarrow> Folder list \<Rightarrow> Folder list" where
  "handleTogglePin convId prev = mapConversations (togglePin convId) prev"

definition handleCreateTag :: "int \<Rightarrow> jsstring \<Rightarrow> jsstring \<Rightarrow> ConversationTag" where
  "handleCreateTag now nm col =
     \<lparr>tag_id = ascii ''tag-'' @ toString now, tag_name = nm, color = col\<rparr>"

definition addTag :: "jsstring \<Rightarrow> ConversationTag \<Rightarrow> Conversation \<Rightarrow> Conversation" where
  "addTag convId tag conv =
     (if c_id conv \<noteq> convId then conv
      else if list_ex (\<lambda>t. tag_id t = tag_id tag) (tags conv) then conv
      else conv\<lparr>tags := tags conv @ [tag]\<rparr>)"

definition handleAddTag :: "jsstring \<Rightarrow> ConversationTag \<Rightarrow> Folder list \<Rightarrow> Folder list" where
  "handleAddTag convId tag prev = mapConversations (addTag convId tag) prev"

definition removeTag :: "jsstring \<Rightarrow> jsstring \<Rightarrow> Conversation \<Rightarrow> Conversation" where
  "removeTag convId tagId conv =
     (if c_id conv = convId
      then conv\<lparr>tags := filter (\<lambda>t. tag_id t \<noteq> tagId) (tags conv)\<rparr> else conv)"

definition handleRemoveTag :: "jsstring \<Rightarrow> jsstring \<Rightarrow> Folder list \<Rightarrow> Folder list" where
  "handleRemoveTag convId tagId prev = mapConversations (removeTag convId tagId) prev"

text \<open>\<open>handleContentChange\<close>: the editor writes the document of the active conversation.\<close>

definition setDocumentContent :: "jsstring \<Rightarrow> jsstring \<Rightarrow> int \<Rightarrow> Conversation \<Rightarrow> Conversation" where
  "setDocumentContent convId text now conv =
     (if c_id conv = convId then conv\<lparr>documentContent := text, updatedAt := Date now\<rparr>
      else conv)"

definition handleContentChange :: "jsstring \<Rightarrow> int \<Rightarrow> HomeState \<Rightarrow> HomeState" where
  "handleContentChange text now s =
     (case activeConversationId s of
        None \<Rightarrow> s
      | Some convId \<Rightarrow>
          if convId = [] then s
          else s\<lparr>folders := mapConversations (setDocumentContent convId text now) (folders s)\<rparr>)"

section \<open>Sending a message (\<open>handleSendMessage\<close>)\<close>

definition APOLOGY :: jsstring where
  \<comment> \<open>the fixed apology of the catch branch of handleSendMessage (Japanese: excuse us, a connection problem occurred, please try again)\<close>
  "APOLOGY =
    [12377, 12415, 12414, 12379, 12435, 12289, 25509, 32154, 12395, 21839, 38988, 12364,
     30330, 29983, 12375, 12414, 12375, 12383, 12290, 12418, 12358, 19968, 24230, 12362,
     35430, 12375, 12367, 12384, 12373, 12356, 12290]"


record ApiMessage =
  api_role :: jsstring
  api_content :: jsstring

record AISettings =
  provider :: jsstring
  apiKey :: jsstring
  model :: jsstring

definition roleText :: "Role \<Rightarrow> jsstring" where
  "roleText r = (case r of user \<Rightarrow> ascii ''user'' | assistant \<Rightarrow> ascii ''assistant'')"

definition toApi :: "Message \<Rightarrow> ApiMessage" where
  "toApi m = \<lparr>api_role = roleText (role m), api_content = content m\<rparr>"

text \<open>The requests the handler sends: to /api/chat, /api/summarize and /api/title.\<close>

datatype request =
  ChatRequest "ApiMessage list" "AISettings option"
| SummarizeRequest "ApiMessage list" "AISettings option"
| TitleRequest jsstring jsstring jsstring jsstring

text \<open>
  How an awaited request settles for the handler: \<open>fetch\<close> or \<open>response.json()\<close>
  throws, or the body arrives.
\<close>

datatype 'a outcome = Rejected thrown | Resolved 'a

text \<open>
  What one invocation holds in its closure across its awaits: the conversation id fixed
  before the first await, the user's message, the messages of that conversation in the
  \<open>folders\<close> the handler was created with (\<open>currentConv?.messages || []\<close>), the text
  sent and the AI settings.
\<close>

record SendTask =
  convIdToUpdate :: jsstring
  userMessage :: Message
  currentMessages :: "Message list"
  sentContent :: jsstring
  aiSettings :: "AISettings option"

definition truncateTitle :: "jsstring \<Rightarrow> jsstring" where
  "truncateTitle text = (if length text > 30 then take 30 text @ ascii ''...'' else text)"

definition appendUserMessage :: "jsstring \<Rightarrow> Message \<Rightarrow> jsstring \<Rightarrow> int \<Rightarrow> Conversation \<Rightarrow> Conversation" where
  "appendUserMessage convId msg text now conv =
     (if c_id conv \<noteq> convId then conv
      else conv\<lparr>messages := messages conv @ [msg],
                title := (if title conv = NEW_CONVERSATION_TITLE \<and> text \<noteq> []
                          then truncateTitle text else title conv),
                updatedAt := Date now\<rparr>)"

text \<open>
  \<open>if (!currentConvId)\<close> tests the active id for truthiness: \<open>null\<close> and the empty
  string both count as no conversation.
\<close>

definition truthy :: "jsstring option \<Rightarrow> bool" where
  "truthy a = (case a of None \<Rightarrow> False | Some x \<Rightarrow> x \<noteq> [])"

text \<open>
  The handler up to its first \<open>await\<close>: without an active conversation it creates one
  with the id \<open>conv-<now>\<close>; it appends the user's message to the conversations with the
  fixed id, sets the loading flag and sends the chat request.
\<close>

definition sendMessageDispatch ::
  "jsstring \<Rightarrow> int \<Rightarrow> AISettings option \<Rightarrow> HomeState \<Rightarrow> thrown + (HomeState \<times> SendTask \<times> request)" where
  "sendMessageDispatch text now settings s =
     (let created =
            (if truthy (activeConversationId s) then Inr (the (activeConversationId s), folders s)
             else
               (let newId = ascii ''conv-'' @ toString now;
                    newConv = \<lparr>c_id = newId, title = truncateTitle text, messages = [],
                               documentContent = [], tags = [], isPinned = False,
                               createdAt = Date now, updatedAt = Date now\<rparr>
                in case prependToFirstFolder newConv (folders s) of
                     Inl e \<Rightarrow> Inl e
                   | Inr fs \<Rightarrow> Inr (newId, fs)))
      in case created of
           Inl e \<Rightarrow> Inl e
         | Inr (convId, fs) \<Rightarrow>
             (let msg = \<lparr>m_id = ascii ''msg-'' @ toString now, role = user, content = text,
                         timestamp = Date now\<rparr>;
                  current = (case findConversation convId (folders s) of
                               None \<Rightarrow> [] | Some conv \<Rightarrow> messages conv);
                  task = \<lparr>convIdToUpdate = convId, userMessage = msg,
                          currentMessages = current, sentContent = text,
                          aiSettings = settings\<rparr>
              in Inr (s\<lparr>folders := mapConversations (appendUserMessage convId msg text now) fs,
                        activeConversationId := Some convId, isLoading := True\<rparr>,
                      task,
                      ChatRequest (map toApi (current @ [msg])) settings)))"

definition setMessages :: "jsstring \<Rightarrow> Message list \<Rightarrow> int \<Rightarrow> Conversation \<Rightarrow> Conversation" where
  "setMessages convId finalMessages now conv =
     (if c_id conv \<noteq> convId then conv
      else conv\<lparr>messages := finalMessages, updatedAt := Date now\<rparr>)"

definition appendErrorMessage :: "jsstring \<Rightarrow> Message \<Rightarrow> Conversation \<Rightarrow> Conversation" where
  "appendErrorMessage convId errorMessage conv =
     (if c_id conv = convId then conv\<lparr>messages := messages conv @ [errorMessage]\<rparr> else conv)"

definition aiMessageOf :: "jsstring \<Rightarrow> int \<Rightarrow> Message" where
  "aiMessageOf text now =
     \<lparr>m_id = ascii ''msg-'' @ toString now @ ascii ''-ai'', role = assistant, content = text,
      timestamp = Date now\<rparr>"

definition errorMessageOf :: "int \<Rightarrow> Message" where
  "errorMessageOf now =
     \<lparr>m_id = ascii ''msg-'' @ toString now @ ascii ''-error'', role = assistant,
      content = APOLOGY, timestamp = Date now\<rparr>"

text \<open>
  The chat request settles. With a body, \<open>data.message\<close> becomes the assistant message,
  the conversations with the fixed id get \<open>finalMessages\<close>, and the summary is requested.
  When the request throws, the catch branch logs, appends the apology and ends the
  invocation: nothing more is requested.
\<close>

definition chatSettled :: "SendTask \<Rightarrow> jsstring outcome \<Rightarrow> int \<Rightarrow> HomeState \<Rightarrow> HomeState \<times> request list" where
  "chatSettled task result now s =
     (case result of
        Resolved dataMessage \<Rightarrow>
          (let finalMessages =
                 currentMessages task @ [userMessage task, aiMessageOf dataMessage now]
           in (s\<lparr>folders :=
                    mapConversations (setMessages (convIdToUpdate task) finalMessages now)
                      (folders s)\<rparr>,
               [SummarizeRequest (map toApi finalMessages) (aiSettings task)]))
      | Rejected e \<Rightarrow>
          (s\<lparr>folders :=
                mapConversations (appendErrorMessage (convIdToUpdate task) (errorMessageOf now))
                  (folders s),
              isLoading := False,
              console := console s @ [(ascii ''Failed to send message:'', e)]\<rparr>,
           []))"

definition setSummary :: "jsstring \<Rightarrow> jsstring \<Rightarrow> int \<Rightarrow> Conversation \<Rightarrow> Conversation" where
  "setSummary convId summary now conv =
     (if c_id conv \<noteq> convId then conv
      else conv\<lparr>documentContent := summary, updatedAt := Date now\<rparr>)"

text \<open>
  The summary request settles: \<open>summaryData.summary\<close> is written whatever the status of
  the response; a thrown request is logged. Then the title is requested for a
  conversation that had no message, when there are AI settings, and the loading flag is
  cleared.
\<close>

definition summarySettled :: "SendTask \<Rightarrow> jsstring outcome \<Rightarrow> int \<Rightarrow> HomeState \<Rightarrow> HomeState \<times> request list" where
  "summarySettled task result now s =
     (let s' =
            (case result of
               Resolved summary \<Rightarrow>
                 s\<lparr>folders :=
                      mapConversations (setSummary (convIdToUpdate task) summary now) (folders s)\<rparr>
             | Rejected e \<Rightarrow>
                 s\<lparr>console := console s @ [(ascii ''Failed to generate summary:'', e)]\<rparr>)
      in (s'\<lparr>isLoading := False\<rparr>,
          (case aiSettings task of
             Some settings \<Rightarrow>
               if currentMessages task = []
               then [TitleRequest (sentContent task) (model settings) (apiKey settings)
                       (provider settings)]
               else []
           | None \<Rightarrow> [])))"

definition setTitle :: "jsstring \<Rightarrow> jsstring \<Rightarrow> Conversation \<Rightarrow> Conversation" where
  "setTitle convId text conv = (if c_id conv \<noteq> convId then conv else conv\<lparr>title := text\<rparr>)"

text \<open>
  The title request settles: the title is written when the response is \<open>ok\<close> and the
  title is not empty; a thrown request is logged.
\<close>

definition titleSettled :: "SendTask \<Rightarrow> (bool \<times> jsstring) outcome \<Rightarrow> HomeState \<Rightarrow> HomeState" where
  "titleSettled task result s =
     (case result of
        Resolved (ok, text) \<Rightarrow>
          if ok \<and> text \<noteq> []
          then s\<lparr>folders := mapConversations (setTitle (convIdToUpdate task) text) (folders s)\<rparr>
          else s
      | Rejected e \<Rightarrow> s\<lparr>console := console s @ [(ascii ''Failed to generate title:'', e)]\<rparr>)"

section \<open>The chat route (\<open>POST\<close> and \<open>getMockResponse\<close>)\<close>

definition KW_NAYAMI :: jsstring where
  \<comment> \<open>keyword (worry)\<close>
  "KW_NAYAMI =
    [24745]"

definition KW_KOMARU :: jsstring where
  \<comment> \<open>keyword (trouble)\<close>
  "KW_KOMARU =
    [22256]"

definition KW_SHIGOTO :: jsstring where
  \<comment> \<open>keyword (work)\<close>
  "KW_SHIGOTO =
    [20181, 20107]"

definition KW_YUSEN :: jsstring where
  \<comment> \<open>keyword (priority)\<close>
  "KW_YUSEN =
    [20778, 20808]"

definition KW_SEIRI :: jsstring where
  \<comment> \<open>keyword (sort out)\<close>
  "KW_SEIRI =
    [25972, 29702]"

definition KW_MATOME :: jsstring where
  \<comment> \<open>keyword (summary)\<close>
  "KW_MATOME =
    [12414, 12392, 12417]"

definition RESPONSE_0 :: jsstring where
  \<comment> \<open>responses[0]\<close>
  "RESPONSE_0 =
    [12394, 12427, 12411, 12393, 12289, 12381, 12428, 12399, 22823, 20999, 12394, 12509,
     12452, 12531, 12488, 12391, 12377, 12397, 12290, 12418, 12358, 23569, 12375, 20855,
     20307, 30340, 12395, 12289, 12393, 12435, 12394, 29366, 27841, 12391, 12381, 12358,
     24863, 12376, 12414, 12377, 12363, 65311]"

definition RESPONSE_1 :: jsstring where
  \<comment> \<open>responses[1]\<close>
  "RESPONSE_1 =
    [12381, 12398, 32771, 12360, 12289, 12424, 12367, 20998, 12363, 12426, 12414, 12377,
     12290, 25972, 29702, 12375, 12390, 12415, 12414, 12375, 12423, 12358, 12290, 19968,
     30058, 27671, 12395, 12394, 12387, 12390, 12356, 12427, 12398, 12399, 12393, 12398,
     37096, 20998, 12391, 12377, 12363, 65311]"

definition RESPONSE_2 :: jsstring where
  \<comment> \<open>responses[2]\<close>
  "RESPONSE_2 =
    [12381, 12428, 12382, 12428, 12398, 36984, 25246, 32930, 12395, 12388, 12356, 12390,
     12289, 12513, 12522, 12483, 12488, 12392, 12487, 12513, 12522, 12483, 12488, 12434,
     26360, 12365, 20986, 12375, 12390, 12415, 12414, 12375, 12423, 12358, 12363, 65311]"

definition RESPONSE_3 :: jsstring where
  \<comment> \<open>responses[3]\<close>
  "RESPONSE_3 =
    [12381, 12398, 27671, 25345, 12385, 12289, 25265, 12360, 12390, 12356, 12427, 12398,
     12399, 22823, 22793, 12391, 12377, 12424, 12397, 12290, 20778, 20808, 38918, 20301,
     12434, 12388, 12369, 12427, 12392, 12375, 12383, 12425, 12289, 20309, 12364, 19968,
     30058, 37325, 35201, 12391, 12377, 12363, 65311]"

definition RESPONSE_4 :: jsstring where
  \<comment> \<open>responses[4]\<close>
  "RESPONSE_4 =
    [12394, 12427, 12411, 12393, 12290, 12381, 12398, 20013, 12391, 12289, 20170, 12377,
     12368, 27770, 12417, 12394, 12369, 12428, 12400, 12356, 12369, 12394, 12356, 12371,
     12392, 12392, 12289, 24460, 12391, 32771, 12360, 12390, 12418, 33391, 12356, 12371,
     12392, 12434, 20998, 12369, 12390, 12415, 12414, 12375, 12423, 12358, 12290]"

definition OVERRIDE_WORRY :: jsstring where
  \<comment> \<open>the reply of the first keyword branch\<close>
  "OVERRIDE_WORRY =
    [12381, 12398, 24745, 12415, 12289, 12376, 12387, 12367, 12426, 19968, 32210, 12395,
     32771, 12360, 12414, 12375, 12423, 12358, 12290, 20855, 20307, 30340, 12395, 12393,
     12435, 12394, 12371, 12392, 12391, 22256, 12387, 12390, 12356, 12414, 12377, 12363,
     65311]"

definition OVERRIDE_WORK :: jsstring where
  \<comment> \<open>the reply of the second keyword branch\<close>
  "OVERRIDE_WORK =
    [20181, 20107, 12398, 20778, 20808, 38918, 20301, 12391, 36855, 12387, 12390, 12356,
     12427, 12435, 12391, 12377, 12397, 12290, 20170, 25265, 12360, 12390, 12356, 12427,
     12479, 12473, 12463, 12434, 26360, 12365, 20986, 12375, 12390, 12415, 12414, 12375,
     12423, 12358, 12363, 65311]"

definition OVERRIDE_ORGANIZE :: jsstring where
  \<comment> \<open>the reply of the third keyword branch\<close>
  "OVERRIDE_ORGANIZE =
    [12371, 12428, 12414, 12391, 12398, 35441, 12434, 25972, 29702, 12375, 12390, 12415,
     12414, 12377, 12397, 12290, 12356, 12367, 12388, 12363, 12398, 37325, 35201, 12394,
     12509, 12452, 12531, 12488, 12364, 35211, 12360, 12390, 12365, 12414, 12375, 12383,
     12290]"

definition API_ERROR_PREFIX :: jsstring where
  \<comment> \<open>the text before the error message in the reply of the chat route's catch branch\<close>
  "API_ERROR_PREFIX =
    [9888, 65039, 32, 65, 80, 73, 32, 12456, 12521, 12540, 12364, 30330, 29983, 12375, 12414,
     12375, 12383, 58, 32]"

definition API_ERROR_SUFFIX :: jsstring where
  \<comment> \<open>the text after the error message in the reply of the chat route's catch branch\<close>
  "API_ERROR_SUFFIX =
    [10, 10, 35373, 23450, 12434, 30906, 35469, 12375, 12390, 12367, 12384, 12373, 12356,
     12290, 38263, 12377, 12366, 12427, 12513, 12483, 12475, 12540, 12472, 12398, 22580,
     21512, 12399, 12289, 20869, 23481, 12434, 30701, 12367, 12375, 12390, 12362, 35430,
     12375, 12367, 12384, 12373, 12356, 12290]"


definition responses :: "jsstring list" where
  "responses = [RESPONSE_0, RESPONSE_1, RESPONSE_2, RESPONSE_3, RESPONSE_4]"

text \<open>
  \<open>getMockResponse\<close>: \<open>messages.filter(m => m.role === 'user').pop()?.content || ''\<close>
  is the last user message, and \<open>random\<close> is the value of \<open>Math.random()\<close>; an index
  outside the array reads \<open>undefined\<close>, here \<open>None\<close>. The product \<open>random * 5\<close> is
  taken over the rationals, without the rounding of the double product: it names the
  response the code picks except for a \<open>random\<close> whose product the rounding carries
  up to the next whole number. The set of responses that can be picked is the same.
\<close>

definition lastUserMessage :: "ApiMessage list \<Rightarrow> jsstring" where
  "lastUserMessage msgs =
     (let userMessages = filter (\<lambda>m. api_role m = ascii ''user'') msgs
      in if userMessages = [] then [] else api_content (last userMessages))"

definition getMockResponse :: "ApiMessage list \<Rightarrow> rat \<Rightarrow> jsstring option" where
  "getMockResponse msgs random =
     (if includes_str (lastUserMessage msgs) KW_NAYAMI
         \<or> includes_str (lastUserMessage msgs) KW_KOMARU
      then Some OVERRIDE_WORRY
      else if includes_str (lastUserMessage msgs) KW_SHIGOTO
         \<or> includes_str (lastUserMessage msgs) KW_YUSEN
      then Some OVERRIDE_WORK
      else if includes_str (lastUserMessage msgs) KW_SEIRI
         \<or> includes_str (lastUserMessage msgs) KW_MATOME
      then Some OVERRIDE_ORGANIZE
      else (let i = \<lfloor>random * of_nat (length responses)\<rfloor>
            in if 0 \<le> i \<and> nat i < length responses then Some (responses ! nat i) else None))"

text \<open>
  The provider calls (\<open>callOpenAI\<close>, \<open>callAnthropic\<close>, \<open>callGemini\<close>) are HTTP requests
  to the vendors. A route takes what such a call would return or throw as the function
  \<open>call\<close> of provider, key, model and messages, and reports the calls it made.
\<close>

type_synonym providerCall = "jsstring \<times> jsstring \<times> jsstring \<times> ApiMessage list"

type_synonym providers = "providerCall \<Rightarrow> thrown + jsstring"

definition knownProvider :: "jsstring \<Rightarrow> bool" where
  "knownProvider p = (p = ascii ''openai'' \<or> p = ascii ''anthropic'' \<or> p = ascii ''gemini'')"

text \<open>\<open>messages.length > MAX ? messages.slice(-MAX) : messages\<close>\<close>

definition truncateMessages :: "nat \<Rightarrow> 'a list \<Rightarrow> 'a list" where
  "truncateMessages MAX_MESSAGES msgs =
     (if length msgs > MAX_MESSAGES then drop (length msgs - MAX_MESSAGES) msgs else msgs)"

text \<open>\<open>settings?.apiKey\<close> is falsy without settings and with an empty key.\<close>

definition hasApiKey :: "AISettings option \<Rightarrow> bool" where
  "hasApiKey settings = (case settings of None \<Rightarrow> False | Some st \<Rightarrow> apiKey st \<noteq> [])"

record ChatResponse =
  chat_status :: nat
  chat_message :: "jsstring option"
  chat_isDemo :: bool
  chat_provider :: jsstring
  chat_error :: "jsstring option"

record 'r RouteResult =
  response :: 'r
  providerCalls :: "providerCall list"
  serverConsole :: "(jsstring \<times> thrown) list"

definition chatErrorResponse :: "thrown \<Rightarrow> ChatResponse RouteResult" where
  "chatErrorResponse e =
     \<lparr>response =
        \<lparr>chat_status = 200,
         chat_message = Some (API_ERROR_PREFIX @ message_of e @ API_ERROR_SUFFIX),
         chat_isDemo = True, chat_provider = ascii ''error'',
         chat_error = Some (message_of e)\<rparr>,
      providerCalls = [], serverConsole = [(ascii ''Chat API error:'', e)]\<rparr>"

definition chatPOST :: "providers \<Rightarrow> rat \<Rightarrow> ApiMessage list \<Rightarrow> AISettings option \<Rightarrow> ChatResponse RouteResult" where
  "chatPOST call random msgs settings =
     (case settings of
        None \<Rightarrow>
          \<lparr>response = \<lparr>chat_status = 200, chat_message = getMockResponse msgs random,
                        chat_isDemo = True, chat_provider = ascii ''demo'', chat_error = None\<rparr>,
           providerCalls = [], serverConsole = []\<rparr>
      | Some st \<Rightarrow>
          if apiKey st = [] then
            \<lparr>response = \<lparr>chat_status = 200, chat_message = getMockResponse msgs random,
                          chat_isDemo = True, chat_provider = ascii ''demo'', chat_error = None\<rparr>,
             providerCalls = [], serverConsole = []\<rparr>
          else if knownProvider (provider st) then
            (let c = (provider st, apiKey st, model st, truncateMessages 20 msgs)
             in case call c of
                  Inr responseMessage \<Rightarrow>
                    \<lparr>response = \<lparr>chat_status = 200, chat_message = Some responseMessage,
                                  chat_isDemo = False, chat_provider = provider st,
                                  chat_error = None\<rparr>,
                     providerCalls = [c], serverConsole = []\<rparr>
                | Inl e \<Rightarrow> (chatErrorResponse e)\<lparr>providerCalls := [c]\<rparr>)
          else chatErrorResponse (Error (ascii ''Unknown provider'')))"

section \<open>The summarize route (\<open>POST\<close> and \<open>generateFallbackSummary\<close>)\<close>

definition FALLBACK_EMPTY :: jsstring where
  \<comment> \<open>generateFallbackSummary on no messages (heading, then: there is no dialogue yet)\<close>
  "FALLBACK_EMPTY =
    [35, 32, 23550, 35441, 12469, 12510, 12522, 12540, 10, 10, 23550, 35441, 12364, 12414,
     12384, 12354, 12426, 12414, 12379, 12435, 12290]"

definition FALLBACK_HEAD :: jsstring where
  \<comment> \<open>the template of generateFallbackSummary up to the first topic\<close>
  "FALLBACK_HEAD =
    [35, 32, 23550, 35441, 12469, 12510, 12522, 12540, 10, 10, 35, 35, 32, 32972, 26223,
     12539, 35506, 38988, 10]"

definition FALLBACK_MID :: jsstring where
  \<comment> \<open>the template between the first topic and the count\<close>
  "FALLBACK_MID =
    [10, 10, 35, 35, 32, 35696, 35542, 12398, 20869, 23481, 10, 45, 32]"

definition FALLBACK_TAIL :: jsstring where
  \<comment> \<open>the template after the count\<close>
  "FALLBACK_TAIL =
    [20214, 12398, 12488, 12500, 12483, 12463, 12395, 12388, 12356, 12390, 23550, 35441, 10,
     45, 32, 35443, 32048, 12394, 12469, 12510, 12522, 12540, 12395, 12399, 65, 80, 73,
     35373, 23450, 12364, 24517, 35201, 12391, 12377, 10, 10, 35, 35, 32, 20633, 32771, 10,
     35373, 23450, 12363, 12425, 65, 80, 73, 12461, 12540, 12434, 30331, 37682, 12377, 12427,
     12392, 12289, 65, 73, 12395, 12424, 12427, 35443, 32048, 12394, 12469, 12510, 12522,
     12540, 12364, 29983, 25104, 12373, 12428, 12414, 12377, 12290]"

definition UNKNOWN_TOPIC :: jsstring where
  \<comment> \<open>the first topic when there is none (Japanese: unknown)\<close>
  "UNKNOWN_TOPIC =
    [19981, 26126]"


definition generateFallbackSummary :: "ApiMessage list \<Rightarrow> jsstring" where
  "generateFallbackSummary msgs =
     (if msgs = [] then FALLBACK_EMPTY
      else
        let userMessages = filter (\<lambda>m. api_role m = ascii ''user'') msgs;
            firstTopic =
              (case userMessages of
                 [] \<Rightarrow> UNKNOWN_TOPIC
               | m # _ \<Rightarrow> if take 100 (api_content m) = [] then UNKNOWN_TOPIC
                          else take 100 (api_content m))
        in FALLBACK_HEAD @ firstTopic @ (if length firstTopic \<ge> 100 then ascii ''...'' else [])
           @ FALLBACK_MID @ toString (int (length userMessages)) @ FALLBACK_TAIL)"

record SummarizeResponse =
  sum_status :: nat
  sum_summary :: jsstring
  sum_isDemo :: bool
  sum_error :: "jsstring option"

definition summarizeErrorResponse :: "thrown \<Rightarrow> SummarizeResponse RouteResult" where
  "summarizeErrorResponse e =
     \<lparr>response = \<lparr>sum_status = 500, sum_summary = generateFallbackSummary [],
                   sum_isDemo = True, sum_error = Some (message_of e)\<rparr>,
      providerCalls = [], serverConsole = [(ascii ''Summarize API error:'', e)]\<rparr>"

definition summarizePOST :: "providers \<Rightarrow> ApiMessage list \<Rightarrow> AISettings option \<Rightarrow> SummarizeResponse RouteResult" where
  "summarizePOST call msgs settings =
     (case settings of
        None \<Rightarrow>
          \<lparr>response = \<lparr>sum_status = 200, sum_summary = generateFallbackSummary msgs,
                        sum_isDemo = True, sum_error = None\<rparr>,
           providerCalls = [], serverConsole = []\<rparr>
      | Some st \<Rightarrow>
          if apiKey st = [] then
            \<lparr>response = \<lparr>sum_status = 200, sum_summary = generateFallbackSummary msgs,
                          sum_isDemo = True, sum_error = None\<rparr>,
             providerCalls = [], serverConsole = []\<rparr>
          else if knownProvider (provider st) then
            (let c = (provider st, apiKey st, model st, truncateMessages 30 msgs)
             in case call c of
                  Inr summary \<Rightarrow>
                    \<lparr>response = \<lparr>sum_status = 200, sum_summary = summary, sum_isDemo = False,
                                  sum_error = None\<rparr>,
                     providerCalls = [c], serverConsole = []\<rparr>
                | Inl e \<Rightarrow> (summarizeErrorResponse e)\<lparr>providerCalls := [c]\<rparr>)
          else summarizeErrorResponse (Error (ascii ''Unknown provider'')))"

section \<open>Importing a ChatGPT export (\<open>parseChatGPTExport\<close>, \<open>handleFileSelect\<close>)\<close>

definition UNTITLED :: jsstring where
  \<comment> \<open>the placeholder title of an imported conversation (Japanese: untitled conversation)\<close>
  "UNTITLED =
    [28961, 38988, 12398, 20250, 35441]"

definition NOT_CHATGPT_FORMAT :: jsstring where
  \<comment> \<open>the message thrown for a top-level value that is not an array\<close>
  "NOT_CHATGPT_FORMAT =
    [67, 104, 97, 116, 71, 80, 84, 12398, 12456, 12463, 12473, 12509, 12540, 12488, 24418,
     24335, 12391, 12399, 12354, 12426, 12414, 12379, 12435]"

definition DOC_DATE_PREFIX :: jsstring where
  \<comment> \<open>the import date line of generateDocumentContent, before the date\<close>
  "DOC_DATE_PREFIX =
    [55357, 56517, 32, 12452, 12531, 12509, 12540, 12488, 26085, 26178, 58, 32]"

definition DOC_RECORD_HEADING :: jsstring where
  \<comment> \<open>the transcript heading\<close>
  "DOC_RECORD_HEADING =
    [35, 35, 32, 23550, 35441, 12398, 35352, 37682, 10, 10]"

definition DOC_USER_HEADING :: jsstring where
  \<comment> \<open>the heading of a user block\<close>
  "DOC_USER_HEADING =
    [35, 35, 35, 32, 55357, 56493, 32, 12518, 12540, 12470, 12540, 10, 10]"

definition DOC_AI_PREFIX :: jsstring where
  \<comment> \<open>the prefix of an assistant block\<close>
  "DOC_AI_PREFIX =
    [62, 32, 55358, 56598, 32, 42, 42, 67, 104, 97, 116, 71, 80, 84, 42, 42, 58, 32]"

definition DOC_SUMMARY_HEADING :: jsstring where
  \<comment> \<open>the summary heading\<close>
  "DOC_SUMMARY_HEADING =
    [35, 35, 32, 12469, 12510, 12522, 12540, 10, 10]"

definition DOC_COUNT_USER_PREFIX :: jsstring where
  \<comment> \<open>before the number of user messages\<close>
  "DOC_COUNT_USER_PREFIX =
    [45, 32, 55357, 56541, 32]"

definition DOC_COUNT_USER_SUFFIX :: jsstring where
  \<comment> \<open>after the number of user messages\<close>
  "DOC_COUNT_USER_SUFFIX =
    [20214, 12398, 12513, 12483, 12475, 12540, 12472, 10]"

definition DOC_COUNT_AI_PREFIX :: jsstring where
  \<comment> \<open>before the number of assistant messages\<close>
  "DOC_COUNT_AI_PREFIX =
    [45, 32, 55357, 56481, 32]"

definition DOC_COUNT_AI_SUFFIX :: jsstring where
  \<comment> \<open>after the number of assistant messages\<close>
  "DOC_COUNT_AI_SUFFIX =
    [20214, 12398, 24540, 31572, 10]"


text \<open>
  The export format. A field the parser reads through and that a record may lack is an
  option: the author of a message, the parts of its content (\<open>None\<close> when the content
  or its parts are missing), the message of a node, the mapping of a conversation. A time
  is a field that is missing, \<open>null\<close> or a number, the value of the double. \<open>mapping\<close>
  lists the entries of the object in the order \<open>Object.values\<close> enumerates them.
  \<open>parent\<close> and \<open>children\<close> of a node are never read.
\<close>

datatype jsnumber = Missing | Null | Number rat

record ChatGPTMessage =
  gm_id :: jsstring
  author_role :: "jsstring option"
  parts :: "jsstring list option"
  create_time :: jsnumber

record MappingNode =
  node_id :: jsstring
  message :: "ChatGPTMessage option"

record ChatGPTConversation =
  gc_id :: jsstring
  gc_title :: jsstring
  gc_create_time :: jsnumber
  gc_update_time :: jsnumber
  mapping :: "(jsstring \<times> MappingNode) list option"

text \<open>
  What the parser takes from its environment: \<open>nowText\<close> is
  \<open>new Date().toLocaleString('ja-JP')\<close>, and \<open>times1000 t\<close> is the double \<open>t * 1000\<close>,
  the product rounded to the nearest double. For whole seconds below \<open>2^53 / 1000\<close> the
  product is exact; in general it differs from the exact product, and nothing below
  depends on it.
\<close>

record ImportEnv =
  nowText :: jsstring
  times1000 :: "rat \<Rightarrow> rat"

text \<open>
  \<open>new Date(t * 1000)\<close>: a missing \<open>t\<close> gives NaN and an invalid date, \<open>null\<close> gives
  \<open>0\<close> and the epoch.
\<close>

definition dateOfSeconds :: "ImportEnv \<Rightarrow> jsnumber \<Rightarrow> Date" where
  "dateOfSeconds env t =
     (case t of
        Missing \<Rightarrow> Invalid_Date
      | Null \<Rightarrow> newDate 0
      | Number x \<Rightarrow> newDate (times1000 env x))"

text \<open>\<open>node.message?.content?.parts?.length\<close>: a message with at least one part.\<close>

definition hasParts :: "MappingNode \<Rightarrow> bool" where
  "hasParts node =
     (case message node of
        None \<Rightarrow> False
      | Some msg \<Rightarrow> (case parts msg of None \<Rightarrow> False | Some ps \<Rightarrow> ps \<noteq> []))"

text \<open>
  \<open>node.message?.create_time || 0\<close>, the key of the sort: \<open>0\<close> for a time that is
  missing or \<open>null\<close>.
\<close>

definition timeKey :: "MappingNode \<Rightarrow> rat" where
  "timeKey node =
     (case message node of
        None \<Rightarrow> 0
      | Some msg \<Rightarrow> (case create_time msg of Missing \<Rightarrow> 0 | Null \<Rightarrow> 0 | Number t \<Rightarrow> t))"

text \<open>
  \<open>Array.prototype.sort\<close> is stable, and the comparator is the difference of the keys:
  the result is the stable sort by key, which \<open>sort_key\<close> computes.
\<close>

definition messageNodes :: "(jsstring \<times> MappingNode) list \<Rightarrow> MappingNode list" where
  "messageNodes m = sort_key timeKey (filter hasParts (map snd m))"

text \<open>
  The loop over the sorted nodes. A \<open>continue\<close> goes on with the rest; reading the role
  of a missing author throws, which leaves the loop.
\<close>

fun collectMessages :: "ImportEnv \<Rightarrow> MappingNode list \<Rightarrow> thrown + Message list" where
  "collectMessages env [] = Inr []"
| "collectMessages env (node # rest) =
     (case message node of
        None \<Rightarrow> collectMessages env rest
      | Some msg \<Rightarrow>
          (case author_role msg of
             None \<Rightarrow> Inl (TypeError (ascii ''Cannot read properties of undefined (reading 'role')''))
           | Some r \<Rightarrow>
               if r \<noteq> ascii ''user'' \<and> r \<noteq> ascii ''assistant'' then collectMessages env rest
               else
                 (case parts msg of
                    None \<Rightarrow>
                      Inl (TypeError (ascii ''Cannot read properties of undefined (reading 'parts')''))
                  | Some ps \<Rightarrow>
                      if trim (join ps [10]) = [] then collectMessages env rest
                      else
                        (case collectMessages env rest of
                           Inl e \<Rightarrow> Inl e
                         | Inr ms \<Rightarrow>
                             Inr (\<lparr>m_id = gm_id msg,
                                   role = (if r = ascii ''user'' then user else assistant),
                                   content = trim (join ps [10]),
                                   timestamp = dateOfSeconds env (create_time msg)\<rparr> # ms)))))"

text \<open>
  \<open>generateDocumentContent\<close>. \<open>now\<close> is the text of
  \<open>new Date().toLocaleString('ja-JP')\<close>.
\<close>

definition documentBlock :: "Message \<Rightarrow> jsstring" where
  "documentBlock msg =
     (if role msg = user then DOC_USER_HEADING @ content msg @ [10, 10]
      else DOC_AI_PREFIX @ take 500 (content msg)
           @ (if length (content msg) > 500 then ascii ''...'' else []) @ [10, 10])"

definition generateDocumentContent :: "jsstring \<Rightarrow> Message list \<Rightarrow> jsstring \<Rightarrow> jsstring" where
  "generateDocumentContent now msgs ttl =
     ascii ''# '' @ ttl @ [10, 10]
     @ DOC_DATE_PREFIX @ now @ [10, 10]
     @ ascii ''---'' @ [10, 10]
     @ DOC_RECORD_HEADING
     @ concat (map documentBlock msgs)
     @ ascii ''---'' @ [10, 10]
     @ DOC_SUMMARY_HEADING
     @ DOC_COUNT_USER_PREFIX @ toString (int (length (filter (\<lambda>m. role m = user) msgs)))
     @ DOC_COUNT_USER_SUFFIX
     @ DOC_COUNT_AI_PREFIX @ toString (int (length (filter (\<lambda>m. role m = assistant) msgs)))
     @ DOC_COUNT_AI_SUFFIX"

text \<open>
  The body of the \<open>try\<close> for one conversation: \<open>Inl\<close> when it throws, \<open>Inr None\<close> when
  no message is left, the conversation otherwise.
\<close>

definition parseConversation :: "ImportEnv \<Rightarrow> ChatGPTConversation \<Rightarrow> thrown + Conversation option" where
  "parseConversation env conv =
     (case mapping conv of
        None \<Rightarrow> Inl (TypeError (ascii ''Cannot convert undefined or null to object''))
      | Some m \<Rightarrow>
          (case collectMessages env (messageNodes m) of
             Inl e \<Rightarrow> Inl e
           | Inr msgs \<Rightarrow>
               if msgs \<noteq> [] then
                 Inr (Some \<lparr>c_id = ascii ''imported-'' @ gc_id conv,
                            title = (if gc_title conv = [] then UNTITLED else gc_title conv),
                            messages = msgs,
                            documentContent = generateDocumentContent (nowText env) msgs (gc_title conv),
                            tags = [], isPinned = False,
                            createdAt = dateOfSeconds env (gc_create_time conv),
                            updatedAt = dateOfSeconds env (gc_update_time conv)\<rparr>)
               else Inr None))"

text \<open>
  \<open>parseChatGPTExport\<close> over the elements of the array (\<open>None\<close> is a \<open>null\<close> element),
  with what it writes to the console. A conversation whose body throws is logged and
  skipped. For a \<open>null\<close> element the catch block itself throws when it reads \<open>conv.id\<close>,
  and the function is left.
\<close>

fun parseChatGPTExport ::
  "ImportEnv \<Rightarrow> ChatGPTConversation option list
     \<Rightarrow> (thrown + Conversation list) \<times> (jsstring \<times> thrown) list" where
  "parseChatGPTExport env [] = (Inr [], [])"
| "parseChatGPTExport env (None # rest) =
     (Inl (TypeError (ascii ''Cannot read properties of null (reading 'id')'')), [])"
| "parseChatGPTExport env (Some conv # rest) =
     (case parseConversation env conv of
        Inl e \<Rightarrow>
          (case parseChatGPTExport env rest of
             (r, logged) \<Rightarrow> (r, (ascii ''Failed to parse conversation:'' @ [32] @ gc_id conv, e) # logged))
      | Inr None \<Rightarrow> parseChatGPTExport env rest
      | Inr (Some c) \<Rightarrow>
          (case parseChatGPTExport env rest of
             (Inl e, logged) \<Rightarrow> (Inl e, logged)
           | (Inr cs, logged) \<Rightarrow> (Inr (c # cs), logged)))"

record ImportResult =
  success :: bool
  imported :: nat
  skipped :: nat
  errors :: "jsstring list"

text \<open>
  \<open>handleFileSelect\<close> from the value of \<open>JSON.parse\<close> on: the result shown, the parsed
  conversations kept for the confirmation, and the console.
\<close>

datatype json = NotAnArray | Array "ChatGPTConversation option list"

definition handleFileSelect ::
  "ImportEnv \<Rightarrow> json \<Rightarrow> ImportResult \<times> Conversation list \<times> (jsstring \<times> thrown) list" where
  "handleFileSelect env data =
     (case data of
        NotAnArray \<Rightarrow>
          (\<lparr>success = False, imported = 0, skipped = 0, errors = [NOT_CHATGPT_FORMAT]\<rparr>, [], [])
      | Array records \<Rightarrow>
          (case parseChatGPTExport env records of
             (Inl e, logged) \<Rightarrow>
               (\<lparr>success = False, imported = 0, skipped = 0, errors = [message_of e]\<rparr>, [], logged)
           | (Inr convs, logged) \<Rightarrow>
               (\<lparr>success = True, imported = length convs,
                 skipped = length records - length convs, errors = []\<rparr>, convs, logged)))"

section \<open>Runs of the component\<close>

text \<open>
  What can happen to the component: a handler is invoked, or an awaited request of an
  invocation of \<open>handleSendMessage\<close> settles. A run applies events in order from a
  state; it stops at the first one that throws. The settling events carry any closure
  and any result, so the runs cover every interleaving of the awaited requests with the
  handlers. The collection restored from local storage at start-up is one that an
  earlier run has saved, so runs start from the initial state of the component.
\<close>

datatype event =
  NewConversation int
| Select jsstring
| FolderCreate int
| FolderRename jsstring jsstring
| FolderDelete jsstring
| ConversationDelete jsstring
| ConversationMove jsstring jsstring
| Import "Conversation list" jsstring
| TogglePin jsstring
| AddTag jsstring ConversationTag
| RemoveTag jsstring jsstring
| ContentChange jsstring int
| SendMessage jsstring int "AISettings option"
| ChatSettled SendTask "jsstring outcome" int
| SummarySettled SendTask "jsstring outcome" int
| TitleSettled SendTask "(bool \<times> jsstring) outcome"

definition step :: "event \<Rightarrow> HomeState \<Rightarrow> thrown + HomeState" where
  "step e s =
     (case e of
        NewConversation now \<Rightarrow> handleNewConversation now s
      | Select convId \<Rightarrow> Inr (handleConversationSelect convId s)
      | FolderCreate now \<Rightarrow> Inr (s\<lparr>folders := handleFolderCreate now (folders s)\<rparr>)
      | FolderRename folderId newName \<Rightarrow>
          Inr (s\<lparr>folders := handleFolderRename folderId newName (folders s)\<rparr>)
      | FolderDelete folderId \<Rightarrow> Inr (handleFolderDelete folderId s)
      | ConversationDelete convId \<Rightarrow> Inr (handleConversationDelete convId s)
      | ConversationMove convId targetFolderId \<Rightarrow>
          Inr (s\<lparr>folders := handleConversationMove convId targetFolderId (folders s)\<rparr>)
      | Import convs targetFolderId \<Rightarrow> Inr (handleImport convs targetFolderId s)
      | TogglePin convId \<Rightarrow> Inr (s\<lparr>folders := handleTogglePin convId (folders s)\<rparr>)
      | AddTag convId tag \<Rightarrow> Inr (s\<lparr>folders := handleAddTag convId tag (folders s)\<rparr>)
      | RemoveTag convId tagId \<Rightarrow> Inr (s\<lparr>folders := handleRemoveTag convId tagId (folders s)\<rparr>)
      | ContentChange text now \<Rightarrow> Inr (handleContentChange text now s)
      | SendMessage text now settings \<Rightarrow>
          (case sendMessageDispatch text now settings s of
             Inl e \<Rightarrow> Inl e
           | Inr (s', task, req) \<Rightarrow> Inr s')
      | ChatSettled task result now \<Rightarrow> Inr (fst (chatSettled task result now s))
      | SummarySettled task result now \<Rightarrow> Inr (fst (summarySettled task result now s))
      | TitleSettled task result \<Rightarrow> Inr (titleSettled task result s))"

fun run :: "event list \<Rightarrow> HomeState \<Rightarrow> thrown + HomeState" where
  "run [] s = Inr s"
| "run (e # es) s = (case step e s of Inl err \<Rightarrow> Inl err | Inr s' \<Rightarrow> run es s')"

text \<open>
  Folder ids come from the clock (\<open>folder-<now>\<close>) and nothing compares them with the
  ids in use. A run creates fresh folder ids when no \<open>FolderCreate\<close> of it produces an
  id that a folder of the state it is applied to already has.
\<close>

definition freshFolderId :: "event \<Rightarrow> HomeState \<Rightarrow> bool" where
  "freshFolderId e s =
     (case e of
        FolderCreate now \<Rightarrow> \<not> list_ex (\<lambda>f. f_id f = ascii ''folder-'' @ toString now) (folders s)
      | _ \<Rightarrow> True)"

fun freshFolderIds :: "event list \<Rightarrow> HomeState \<Rightarrow> bool" where
  "freshFolderIds [] s = True"
| "freshFolderIds (e # es) s =
     (freshFolderId e s \<and> (case step e s of Inl err \<Rightarrow> True | Inr s' \<Rightarrow> freshFolderIds es s'))"

text \<open>The invariant of the folder collection: not empty, with distinct folder ids.\<close>

definition folderInv :: "HomeState \<Rightarrow> bool" where
  "folderInv s = (folders s \<noteq> [] \<and> distinct (map f_id (folders s)))"

section \<open>The message sequence of a conversation record, as C9 words it\<close>

text \<open>
  The claim describes the messages of a record as a pipeline: the nodes that have a
  message with at least one content part, sorted stably by the origin timestamp, restricted
  to the roles user and assistant, each with its parts joined by newlines and trimmed,
  without those that are empty after the trim. The definitions with the prefix \<open>spec\<close>
  follow these words and use nothing of the parser above but the data and the conversion
  of a time to a date; they are compared below with the loop of the source.

  The origin timestamp of a node is the creation time of its message; a node without a
  time (missing or \<open>null\<close>) is placed at \<open>0\<close>.
\<close>

definition specHasParts :: "MappingNode \<Rightarrow> bool" where
  "specHasParts node =
     (case message node of
        None \<Rightarrow> False
      | Some msg \<Rightarrow> (case parts msg of None \<Rightarrow> False | Some ps \<Rightarrow> 1 \<le> length ps))"

definition specTimestamp :: "MappingNode \<Rightarrow> rat" where
  "specTimestamp node =
     (case message node of
        None \<Rightarrow> 0
      | Some msg \<Rightarrow> (case create_time msg of Number t \<Rightarrow> t | _ \<Rightarrow> 0))"

definition specRoleKept :: "MappingNode \<Rightarrow> bool" where
  "specRoleKept node =
     (case message node of
        None \<Rightarrow> False
      | Some msg \<Rightarrow>
          author_role msg = Some (ascii ''user'') \<or> author_role msg = Some (ascii ''assistant''))"

definition specContent :: "MappingNode \<Rightarrow> jsstring" where
  "specContent node =
     (case message node of
        None \<Rightarrow> []
      | Some msg \<Rightarrow> (case parts msg of None \<Rightarrow> [] | Some ps \<Rightarrow> trim (join ps [10])))"

definition specMessage :: "ImportEnv \<Rightarrow> MappingNode \<Rightarrow> Message" where
  "specMessage env node =
     (case message node of
        None \<Rightarrow> \<lparr>m_id = [], role = assistant, content = [], timestamp = Invalid_Date\<rparr>
      | Some msg \<Rightarrow>
          \<lparr>m_id = gm_id msg,
           role = (if author_role msg = Some (ascii ''user'') then user else assistant),
           content = specContent node,
           timestamp = dateOfSeconds env (create_time msg)\<rparr>)"

text \<open>
  The stable sort by timestamp is written out as the insertion of each node, from the
  last to the first, before the first node with a timestamp that is not smaller.
\<close>

fun specInsert :: "MappingNode \<Rightarrow> MappingNode list \<Rightarrow> MappingNode list" where
  "specInsert node [] = [node]"
| "specInsert node (n # ns) =
     (if specTimestamp node \<le> specTimestamp n then node # n # ns else n # specInsert node ns)"

definition specSorted :: "MappingNode list \<Rightarrow> MappingNode list" where
  "specSorted nodes = foldr specInsert nodes []"

definition specMessages :: "ImportEnv \<Rightarrow> (jsstring \<times> MappingNode) list \<Rightarrow> Message list" where
  "specMessages env m =
     filter (\<lambda>msg. content msg \<noteq> [])
       (map (specMessage env)
          (filter specRoleKept
             (specSorted
                (filter specHasParts (map snd m)))))"

definition specConversation ::
  "ImportEnv \<Rightarrow> ChatGPTConversation \<Rightarrow> (jsstring \<times> MappingNode) list \<Rightarrow> Conversation" where
  "specConversation env conv m =
     \<lparr>c_id = ascii ''imported-'' @ gc_id conv,
      title = (if gc_title conv = [] then UNTITLED else gc_title conv),
      messages = specMessages env m,
      documentContent = generateDocumentContent (nowText env) (specMessages env m) (gc_title conv),
      tags = [], isPinned = False,
      createdAt = dateOfSeconds env (gc_create_time conv),
      updatedAt = dateOfSeconds env (gc_update_time conv)\<rparr>"

text \<open>
  A record parses without an error when it has a mapping and every node with parts has
  an author; \<open>hasAuthor\<close> is the second condition for one node.
\<close>

definition hasAuthor :: "MappingNode \<Rightarrow> bool" where
  "hasAuthor node =
     (case message node of None \<Rightarrow> True | Some msg \<Rightarrow> author_role msg \<noteq> None)"

text \<open>
  What one record contributes to an import: its conversation, when its body does not
  throw and leaves a message, and its entry in the console, when its body throws.
\<close>

definition conversationOf :: "ImportEnv \<Rightarrow> ChatGPTConversation \<Rightarrow> Conversation option" where
  "conversationOf env conv =
     (case parseConversation env conv of Inl e \<Rightarrow> None | Inr c \<Rightarrow> c)"

definition failureOf :: "ImportEnv \<Rightarrow> ChatGPTConversation \<Rightarrow> (jsstring \<times> thrown) option" where
  "failureOf env conv =
     (case parseConversation env conv of
        Inl e \<Rightarrow> Some (ascii ''Failed to parse conversation:'' @ [32] @ gc_id conv, e)
      | Inr c \<Rightarrow> None)"

section \<open>Example states and inputs\<close>

text \<open>Two conversations, and a folder that holds them.\<close>

definition conv1 :: Conversation where
  "conv1 =
     \<lparr>c_id = ascii ''conv-1'', title = NEW_CONVERSATION_TITLE, messages = [],
      documentContent = [], tags = [], isPinned = False, createdAt = Date 1,
      updatedAt = Date 1\<rparr>"

definition conv2 :: Conversation where
  "conv2 =
     \<lparr>c_id = ascii ''conv-2'', title = NEW_CONVERSATION_TITLE, messages = [],
      documentContent = [], tags = [], isPinned = False, createdAt = Date 2,
      updatedAt = Date 2\<rparr>"

definition twoConversationFolder :: Folder where
  "twoConversationFolder =
     \<lparr>f_id = ascii ''folder-1'', name = INITIAL_FOLDER_NAME,
      conversations = [conv1, conv2], isExpanded = True\<rparr>"

text \<open>
  A state with two folders: the first is empty, the second holds a conversation with the
  id \<open>conv-5\<close>.
\<close>

definition conv5 :: Conversation where
  "conv5 =
     \<lparr>c_id = ascii ''conv-5'', title = NEW_CONVERSATION_TITLE, messages = [],
      documentContent = [], tags = [], isPinned = False, createdAt = Date 5,
      updatedAt = Date 5\<rparr>"

definition twoFolderState :: HomeState where
  "twoFolderState =
     \<lparr>folders =
        [\<lparr>f_id = ascii ''folder-1'', name = INITIAL_FOLDER_NAME, conversations = [],
          isExpanded = True\<rparr>,
         \<lparr>f_id = ascii ''folder-2'', name = NEW_FOLDER_NAME, conversations = [conv5],
          isExpanded = True\<rparr>],
      activeConversationId = None, isLoading = False, console = []\<rparr>"

text \<open>A state whose only folder holds the conversation \<open>conv-5\<close>.\<close>

definition conv5Folder :: Folder where
  "conv5Folder =
     \<lparr>f_id = ascii ''folder-1'', name = INITIAL_FOLDER_NAME, conversations = [conv5],
      isExpanded = True\<rparr>"

definition conv5State :: HomeState where
  "conv5State =
     \<lparr>folders = [conv5Folder], activeConversationId = None, isLoading = False, console = []\<rparr>"


definition hiMessage :: Message where
  "hiMessage = \<lparr>m_id = ascii ''msg-10'', role = user, content = ascii ''hi'', timestamp = Date 10\<rparr>"

definition hiTask :: SendTask where
  "hiTask =
     \<lparr>convIdToUpdate = ascii ''conv-1'', userMessage = hiMessage, currentMessages = [],
      sentContent = ascii ''hi'', aiSettings = None\<rparr>"







text \<open>
  AI settings for the provider \<open>openai\<close>, a provider whose every call throws the error
  \<open>quota\<close>, and the invocation above under these settings.
\<close>

definition openaiSettings :: AISettings where
  "openaiSettings = \<lparr>provider = ascii ''openai'', apiKey = ascii ''sk-1'', model = ascii ''gpt''\<rparr>"

definition failingProvider :: providers where
  "failingProvider c = Inl (Error (ascii ''quota''))"

definition hiTaskAI :: SendTask where
  "hiTaskAI = hiTask\<lparr>aiSettings := Some openaiSettings\<rparr>"

text \<open>
  The state after the completion \<open>ok\<close> was merged at 20, with the document \<open>my notes\<close>
  in \<open>conv-1\<close>.
\<close>

definition okMessage :: Message where
  "okMessage =
     \<lparr>m_id = ascii ''msg-20-ai'', role = assistant, content = ascii ''ok'', timestamp = Date 20\<rparr>"

definition notesState :: HomeState where
  "notesState =
     \<lparr>folders =
        [twoConversationFolder\<lparr>conversations :=
           [conv1\<lparr>messages := [hiMessage, okMessage], title := ascii ''hi'',
                  documentContent := ascii ''my notes'', updatedAt := Date 20\<rparr>, conv2]\<rparr>],
      activeConversationId = Some (ascii ''conv-1''), isLoading = True, console = []\<rparr>"

text \<open>A request whose last user message is one keyword.\<close>

definition saying :: "jsstring \<Rightarrow> ApiMessage list" where
  "saying words = [\<lparr>api_role = ascii ''user'', api_content = words\<rparr>]"

text \<open>
  The environment of the examples: an import at the local time \<open>2026/1/1\<close>. The times
  of the examples are whole seconds, for which the double product with 1000 is exact.
\<close>

definition exampleEnv :: ImportEnv where
  "exampleEnv = \<lparr>nowText = ascii ''2026/1/1'', times1000 = (\<lambda>t. t * 1000)\<rparr>"

text \<open>
  An exported conversation with four nodes, listed out of time order: an assistant
  message of two parts at 3, a system message at 1, a user message at 2 and a user
  message with blanks around it, also at 3. And a record without a mapping.
\<close>

definition exportNode :: "string \<Rightarrow> string \<Rightarrow> jsstring list \<Rightarrow> rat \<Rightarrow> jsstring \<times> MappingNode" where
  "exportNode key r ps t =
     (ascii key,
      \<lparr>node_id = ascii key,
       message = Some \<lparr>gm_id = ascii key, author_role = Some (ascii r), parts = Some ps,
                       create_time = Number t\<rparr>\<rparr>)"

definition exampleExport :: ChatGPTConversation where
  "exampleExport =
     \<lparr>gc_id = ascii ''abc'', gc_title = ascii ''Trip'', gc_create_time = Number 1,
      gc_update_time = Number 3,
      mapping = Some
        [exportNode ''c'' ''assistant'' [ascii ''Hi'', ascii ''there''] 3,
         exportNode ''b'' ''system'' [ascii ''You are helpful''] 1,
         exportNode ''a'' ''user'' [ascii ''Hello''] 2,
         exportNode ''d'' ''user'' [ascii '' bye ''] 3]\<rparr>"

definition exampleMessages :: "Message list" where
  "exampleMessages =
     [\<lparr>m_id = ascii ''a'', role = user, content = ascii ''Hello'', timestamp = Date 2000\<rparr>,
      \<lparr>m_id = ascii ''c'', role = assistant, content = ascii ''Hi'' @ [10] @ ascii ''there'',
       timestamp = Date 3000\<rparr>,
      \<lparr>m_id = ascii ''d'', role = user, content = ascii ''bye'', timestamp = Date 3000\<rparr>]"

definition exampleImported :: "ImportEnv \<Rightarrow> Conversation" where
  "exampleImported env =
     \<lparr>c_id = ascii ''imported-abc'', title = ascii ''Trip'', messages = exampleMessages,
      documentContent = generateDocumentContent (nowText env) exampleMessages (ascii ''Trip''),
      tags = [], isPinned = False, createdAt = Date 1000, updatedAt = Date 3000\<rparr>"

definition malformedExport :: ChatGPTConversation where
  "malformedExport =
     \<lparr>gc_id = ascii ''bad'', gc_title = ascii ''Broken'', gc_create_time = Number 1,
      gc_update_time = Number 1, mapping = None\<rparr>"

text \<open>A record whose only node has a message without an author.\<close>

definition anonymousExport :: ChatGPTConversation where
  "anonymousExport =
     \<lparr>gc_id = ascii ''anon'', gc_title = ascii ''Anon'', gc_create_time = Number 1,
      gc_update_time = Number 1,
      mapping = Some
        [(ascii ''a'',
          \<lparr>node_id = ascii ''a'',
           message = Some \<lparr>gm_id = ascii ''a'', author_role = None,
                           parts = Some [ascii ''Hello''], create_time = Number 2\<rparr>\<rparr>)]\<rparr>"

text \<open>
  A record with a user message at 1 and, after it, a message at 2 that has a part and no
  author.
\<close>

definition mixedExport :: ChatGPTConversation where
  "mixedExport =
     \<lparr>gc_id = ascii ''mix'', gc_title = ascii ''Mixed'', gc_create_time = Number 1,
      gc_update_time = Number 2,
      mapping = Some
        [exportNode ''u'' ''user'' [ascii ''Hello''] 1,
         (ascii ''x'',
          \<lparr>node_id = ascii ''x'',
           message = Some \<lparr>gm_id = ascii ''x'', author_role = None,
                           parts = Some [ascii ''draft''], create_time = Number 2\<rparr>\<rparr>)]\<rparr>"

section \<open>Lemmas about the handlers\<close>

subsection \<open>The two passes of a move\<close>

lemma f_id_mapConversations: "map f_id (mapConversations g fs) = map f_id fs"
  by (simp add: mapConversations_def comp_def)

lemma length_mapConversations: "length (mapConversations g fs) = length fs"
  by (simp add: mapConversations_def)

lemma find_None_filter: "find P xs = None \<Longrightarrow> filter (\<lambda>x. \<not> P x) xs = xs"
  by (induction xs) (auto split: if_splits)

lemma removeFromFolders_Cons:
  "removeFromFolders convId c0 (folder # rest) =
     (case find (\<lambda>c. c_id c = convId) (conversations folder) of
        Some conv \<Rightarrow>
          (fst (removeFromFolders convId (Some conv) rest),
           folder\<lparr>conversations := filter (\<lambda>c. c_id c \<noteq> convId) (conversations folder)\<rparr>
             # snd (removeFromFolders convId (Some conv) rest))
      | None \<Rightarrow>
          (fst (removeFromFolders convId c0 rest), folder # snd (removeFromFolders convId c0 rest)))"
  by (simp add: case_prod_beta split: option.splits)

lemma snd_removeFromFolders:
  "snd (removeFromFolders convId c0 fs) =
     map (\<lambda>folder. folder\<lparr>conversations := filter (\<lambda>c. c_id c \<noteq> convId) (conversations folder)\<rparr>) fs"
proof (induction fs arbitrary: c0)
  case Nil
  then show ?case by simp
next
  case (Cons folder rest)
  show ?case
  proof (cases "find (\<lambda>c. c_id c = convId) (conversations folder)")
    case None
    then have "filter (\<lambda>c. c_id c \<noteq> convId) (conversations folder) = conversations folder"
      by (rule find_None_filter)
    with None Cons.IH [of c0] show ?thesis
      by (simp add: removeFromFolders_Cons del: removeFromFolders.simps)
  next
    case (Some conv)
    with Cons.IH [of "Some conv"] show ?thesis
      by (simp add: removeFromFolders_Cons del: removeFromFolders.simps)
  qed
qed

lemma find_append_case:
  "find P (xs @ ys) = (case find P xs of None \<Rightarrow> find P ys | Some x \<Rightarrow> Some x)"
  by (induction xs) simp_all

lemma handleConversationMove_alt:
  "handleConversationMove convId target prev =
     (case fst (removeFromFolders convId None prev) of
        Some conversation \<Rightarrow>
          map (\<lambda>folder. if f_id folder = target
                         then folder\<lparr>conversations := conversation # conversations folder\<rparr>
                         else folder) (snd (removeFromFolders convId None prev))
      | None \<Rightarrow> snd (removeFromFolders convId None prev))"
  by (simp add: handleConversationMove_def case_prod_beta split: option.splits)

lemma findConversation_Cons:
  "findConversation convId (folder # rest) =
     (case find (\<lambda>c. c_id c = convId) (conversations folder) of
        None \<Rightarrow> findConversation convId rest | Some c \<Rightarrow> Some c)"
  unfolding findConversation_def by (simp add: find_append_case)

lemma findConversation_None_iff:
  "findConversation convId fs = None \<longleftrightarrow> convId \<notin> c_id ` set (concat (map conversations fs))"
  by (auto simp: findConversation_def find_None_iff)

lemma fst_removeFromFolders_None:
  "findConversation convId fs = None \<Longrightarrow> fst (removeFromFolders convId c0 fs) = c0"
proof (induction fs arbitrary: c0)
  case Nil
  then show ?case by simp
next
  case (Cons folder rest)
  then show ?case
    by (simp add: findConversation_Cons removeFromFolders_Cons del: removeFromFolders.simps
          split: option.splits)
qed

lemma fst_removeFromFolders_Some:
  "distinct (map c_id (concat (map conversations fs))) \<Longrightarrow> findConversation convId fs = Some c
     \<Longrightarrow> fst (removeFromFolders convId c0 fs) = Some c"
proof (induction fs arbitrary: c0)
  case Nil
  then show ?case by (simp add: findConversation_def)
next
  case (Cons folder rest)
  show ?case
  proof (cases "find (\<lambda>c. c_id c = convId) (conversations folder)")
    case None
    with Cons show ?thesis
      by (simp add: findConversation_Cons removeFromFolders_Cons del: removeFromFolders.simps)
  next
    case (Some conv)
    then have "conv \<in> set (conversations folder)" and "c_id conv = convId"
      by (auto simp: find_Some_iff)
    with Cons.prems(1) have "convId \<notin> c_id ` set (concat (map conversations rest))"
      by auto
    then have "findConversation convId rest = None"
      by (simp add: findConversation_None_iff)
    then have "fst (removeFromFolders convId (Some conv) rest) = Some conv"
      by (rule fst_removeFromFolders_None)
    with Some Cons.prems(2) show ?thesis
      by (simp add: findConversation_Cons removeFromFolders_Cons del: removeFromFolders.simps)
  qed
qed

lemma move_not_found:
  "findConversation convId prev = None \<Longrightarrow> handleConversationMove convId target prev = prev"
proof -
  assume a: "findConversation convId prev = None"
  then have "\<forall>folder \<in> set prev. filter (\<lambda>c. c_id c \<noteq> convId) (conversations folder) = conversations folder"
    by (auto simp: findConversation_None_iff intro!: filter_True)
  then have "snd (removeFromFolders convId None prev) = prev"
    by (simp add: snd_removeFromFolders map_idI)
  moreover from a have "fst (removeFromFolders convId None prev) = None"
    by (rule fst_removeFromFolders_None)
  ultimately show ?thesis
    by (simp add: handleConversationMove_alt)
qed

lemma move_found:
  assumes "distinct (map c_id (concat (map conversations prev)))"
      and "findConversation convId prev = Some c"
  shows "handleConversationMove convId target prev =
     map (\<lambda>folder. folder\<lparr>conversations :=
            (if f_id folder = target then [c] else [])
            @ filter (\<lambda>x. c_id x \<noteq> convId) (conversations folder)\<rparr>) prev"
proof -
  from assms have "fst (removeFromFolders convId None prev) = Some c"
    by (rule fst_removeFromFolders_Some)
  then show ?thesis
    by (simp add: handleConversationMove_alt snd_removeFromFolders)
qed

lemma f_id_move: "map f_id (handleConversationMove convId target prev) = map f_id prev"
  by (simp add: handleConversationMove_alt snd_removeFromFolders comp_def split: option.splits)

subsection \<open>The folder collection along a run\<close>

lemma f_id_prependToFirstFolder:
  "prependToFirstFolder c fs = Inr fs' \<Longrightarrow> map f_id fs' = map f_id fs"
  by (auto simp: prependToFirstFolder_def split: list.splits if_splits)

lemma prependToFirstFolder_total:
  "fs \<noteq> [] \<Longrightarrow> \<exists>fs'. prependToFirstFolder c fs = Inr fs'"
  by (auto simp: prependToFirstFolder_def split: list.splits)

lemma folderDelete_nonempty:
  assumes "folders s \<noteq> []" and "distinct (map f_id (folders s))"
  shows "folders (handleFolderDelete folderId s) \<noteq> []"
proof (cases "length (folders s) \<le> 1")
  case True
  with assms show ?thesis by (simp add: handleFolderDelete_def)
next
  case False
  then obtain a b rest where fs: "folders s = a # b # rest"
    by (cases "folders s"; cases "tl (folders s)") auto
  with assms(2) have "f_id a \<noteq> f_id b" by simp
  then have "f_id a \<noteq> folderId \<or> f_id b \<noteq> folderId" by auto
  then have "filter (\<lambda>f. f_id f \<noteq> folderId) (folders s) \<noteq> []"
    by (auto simp: fs)
  with False show ?thesis by (simp add: handleFolderDelete_def Let_def)
qed

lemma folderDelete_distinct:
  "distinct (map f_id (folders s)) \<Longrightarrow> distinct (map f_id (folders (handleFolderDelete folderId s)))"
  by (simp add: handleFolderDelete_def Let_def distinct_map_filter)

lemma step_f_ids:
  assumes "step e s = Inr s'" and "\<forall>now. e \<noteq> FolderCreate now" and "\<forall>i. e \<noteq> FolderDelete i"
  shows "map f_id (folders s') = map f_id (folders s)"
proof (cases e)
  case (NewConversation now)
  with assms(1) show ?thesis
    by (auto simp: step_def handleNewConversation_def Let_def split: sum.splits
          dest: f_id_prependToFirstFolder)
next
  case (SendMessage msgText now settings)
  with assms(1) show ?thesis
    by (auto simp: step_def sendMessageDispatch_def Let_def f_id_mapConversations
          split: sum.splits if_splits dest: f_id_prependToFirstFolder)
next
  case (ChatSettled task result now)
  with assms(1) show ?thesis
    by (auto simp: step_def chatSettled_def Let_def f_id_mapConversations split: outcome.splits)
next
  case (SummarySettled task result now)
  with assms(1) show ?thesis
    by (auto simp: step_def summarySettled_def Let_def f_id_mapConversations split: outcome.splits)
next
  case (TitleSettled task result)
  with assms(1) show ?thesis
    by (auto simp: step_def titleSettled_def f_id_mapConversations split: outcome.splits)
qed (use assms in \<open>auto simp: step_def handleConversationSelect_def handleFolderRename_def
      handleConversationDelete_def f_id_move handleImport_def handleTogglePin_def
      handleAddTag_def handleRemoveTag_def handleContentChange_def f_id_mapConversations
      comp_def split: option.splits if_splits\<close>)

lemma step_inv:
  assumes "folderInv s" and "freshFolderId e s" and "step e s = Inr s'"
  shows "folderInv s'"
proof (cases "(\<exists>now. e = FolderCreate now) \<or> (\<exists>i. e = FolderDelete i)")
  case False
  with assms(3) have "map f_id (folders s') = map f_id (folders s)"
    by (intro step_f_ids) auto
  with assms(1) show ?thesis
    by (metis folderInv_def map_is_Nil_conv)
next
  case True
  then show ?thesis
  proof
    assume "\<exists>now. e = FolderCreate now"
    then obtain now where e: "e = FolderCreate now" ..
    with assms(2) have "ascii ''folder-'' @ toString now \<notin> f_id ` set (folders s)"
      by (auto simp: freshFolderId_def list_ex_iff)
    with assms(1,3) e show ?thesis
      by (auto simp: step_def folderInv_def handleFolderCreate_def)
  next
    assume "\<exists>i. e = FolderDelete i"
    then obtain i where e: "e = FolderDelete i" ..
    with assms show ?thesis
      by (auto simp: step_def folderInv_def folderDelete_nonempty folderDelete_distinct)
  qed
qed

lemma step_total: "folders s \<noteq> [] \<Longrightarrow> \<exists>s'. step e s = Inr s'"
proof (cases e)
  case (NewConversation now)
  assume "folders s \<noteq> []"
  with NewConversation show ?thesis
    by (auto simp: step_def handleNewConversation_def Let_def prependToFirstFolder_def
          split: list.splits)
next
  case (SendMessage msgText now settings)
  assume "folders s \<noteq> []"
  with SendMessage show ?thesis
    by (auto simp: step_def sendMessageDispatch_def Let_def prependToFirstFolder_def
          split: list.splits)
qed (simp_all add: step_def)

lemma run_inv:
  "folderInv s \<Longrightarrow> freshFolderIds evs s \<Longrightarrow> \<exists>s'. run evs s = Inr s' \<and> folderInv s'"
proof (induction evs arbitrary: s)
  case Nil
  then show ?case by simp
next
  case (Cons e es)
  from Cons.prems(1) obtain s1 where s1: "step e s = Inr s1"
    using step_total [of s e] by (auto simp: folderInv_def)
  with Cons.prems have "folderInv s1" and "freshFolderIds es s1"
    by (auto intro: step_inv)
  with Cons.IH [of s1] s1 show ?case by simp
qed

lemma folderInv_initial: "folderInv initialState"
  by (simp add: folderInv_def initialState_def)

subsection \<open>The guard of a creation\<close>

lemma prepend_rejects:
  "list_ex (\<lambda>c. c_id c = c_id newConv) (conversations first)
     \<Longrightarrow> prependToFirstFolder newConv (first # rest) = Inr (first # rest)"
  by (simp add: prependToFirstFolder_def)

lemma prepend_cases:
  "prependToFirstFolder newConv (first # rest) =
     (if c_id newConv \<in> c_id ` set (conversations first) then Inr (first # rest)
      else Inr (first\<lparr>conversations := newConv # conversations first\<rparr> # rest))"
proof -
  have "list_ex (\<lambda>c. c_id c = c_id newConv) (conversations first)
          \<longleftrightarrow> c_id newConv \<in> c_id ` set (conversations first)"
    unfolding list_ex_iff image_iff by metis
  then show ?thesis by (simp add: prependToFirstFolder_def)
qed

lemma prepend_distinct_first:
  assumes "distinct (map c_id (conversations first))"
      and "prependToFirstFolder newConv (first # rest) = Inr fs'"
  shows "\<exists>first'. fs' = first' # rest \<and> distinct (map c_id (conversations first'))"
proof (cases "c_id newConv \<in> c_id ` set (conversations first)")
  case True
  with assms(2) have "fs' = first # rest" by (simp add: prepend_cases)
  with assms(1) show ?thesis by simp
next
  case False
  with assms(2) have "fs' = first\<lparr>conversations := newConv # conversations first\<rparr> # rest"
    by (simp add: prepend_cases)
  with assms(1) False show ?thesis by simp
qed

lemma prepend_distinct_all:
  assumes "distinct (map c_id (concat (map conversations (first # rest))))"
      and "c_id newConv \<notin> c_id ` set (concat (map conversations rest))"
      and "prependToFirstFolder newConv (first # rest) = Inr fs'"
  shows "distinct (map c_id (concat (map conversations fs')))"
proof (cases "c_id newConv \<in> c_id ` set (conversations first)")
  case True
  with assms(3) have "fs' = first # rest" by (simp add: prepend_cases)
  with assms(1) show ?thesis by simp
next
  case False
  with assms(3) have "fs' = first\<lparr>conversations := newConv # conversations first\<rparr> # rest"
    by (simp add: prepend_cases)
  with assms(1,2) False show ?thesis by simp
qed

subsection \<open>Updates that keep \<open>updatedAt\<close>\<close>

lemma mapConversations_updatedAt:
  "(\<And>c. updatedAt (g c) = updatedAt c)
     \<Longrightarrow> map (map updatedAt \<circ> conversations) (mapConversations g fs)
         = map (map updatedAt \<circ> conversations) fs"
  by (simp add: mapConversations_def comp_def)

subsection \<open>The merges of a sent message\<close>

lemma find_map_preserving:
  "(\<And>x. P (g x) = P x) \<Longrightarrow> find P (map g xs) = map_option g (find P xs)"
  by (induction xs) simp_all

lemma findConversation_mapConversations:
  assumes "\<And>c. c_id (g c) = c_id c"
  shows "findConversation convId (mapConversations g fs) = map_option g (findConversation convId fs)"
proof -
  have "concat (map conversations (mapConversations g fs)) = map g (concat (map conversations fs))"
    by (simp add: mapConversations_def comp_def map_concat)
  then show ?thesis
    by (simp add: findConversation_def find_map_preserving assms)
qed





lemma c_id_setMessages [simp]: "c_id (setMessages convId ms now c) = c_id c"
  by (simp add: setMessages_def)

lemma c_id_appendErrorMessage [simp]: "c_id (appendErrorMessage convId m c) = c_id c"
  by (simp add: appendErrorMessage_def)

lemma c_id_appendUserMessage [simp]: "c_id (appendUserMessage convId m t now c) = c_id c"
  by (simp add: appendUserMessage_def)

lemma c_id_setSummary [simp]: "c_id (setSummary convId d now c) = c_id c"
  by (simp add: setSummary_def)

lemma c_id_setTitle [simp]: "c_id (setTitle convId t c) = c_id c"
  by (simp add: setTitle_def)

















lemma summarySettled_folders:
  "folders (fst (summarySettled task result now s)) =
     (case result of
        Resolved summary \<Rightarrow>
          mapConversations (setSummary (convIdToUpdate task) summary now) (folders s)
      | Rejected e \<Rightarrow> folders s)"
  by (simp add: summarySettled_def Let_def split: outcome.splits)

lemma summarySettled_found:
  "findConversation (convIdToUpdate task) (folders (fst (summarySettled task (Resolved summary) now s)))
     = map_option (\<lambda>c. c\<lparr>documentContent := summary, updatedAt := Date now\<rparr>)
         (findConversation (convIdToUpdate task) (folders s))"
proof (cases "findConversation (convIdToUpdate task) (folders s)")
  case None
  then show ?thesis
    by (simp add: summarySettled_folders findConversation_mapConversations)
next
  case (Some c)
  then have "c_id c = convIdToUpdate task"
    by (auto simp: findConversation_def find_Some_iff)
  with Some show ?thesis
    by (simp add: summarySettled_folders findConversation_mapConversations setSummary_def)
qed


lemma summarizePOST_provider_fails:
  assumes "apiKey st \<noteq> []" and "knownProvider (provider st)"
      and "call (provider st, apiKey st, model st, truncateMessages 30 msgs) = Inl e"
  shows "summarizePOST call msgs (Some st) =
     \<lparr>response = \<lparr>sum_status = 500, sum_summary = FALLBACK_EMPTY, sum_isDemo = True,
                   sum_error = Some (message_of e)\<rparr>,
      providerCalls = [(provider st, apiKey st, model st, truncateMessages 30 msgs)],
      serverConsole = [(ascii ''Summarize API error:'', e)]\<rparr>"
  using assms
  by (simp add: summarizePOST_def summarizeErrorResponse_def generateFallbackSummary_def Let_def)


subsection \<open>The examples of a failing provider\<close>

lemma failing_known: "apiKey openaiSettings \<noteq> [] \<and> knownProvider (provider openaiSettings)"
  by (simp add: openaiSettings_def knownProvider_def ascii_def)

subsection \<open>The canned reply\<close>

lemma length_responses: "length responses = 5"
  by (simp add: responses_def)

lemma random_pick:
  fixes random :: rat
  assumes "0 \<le> random" and "random < 1"
  shows "0 \<le> \<lfloor>random * 5\<rfloor> \<and> nat \<lfloor>random * 5\<rfloor> < 5"
proof -
  from assms have a: "0 \<le> random * 5" and b: "random * 5 < of_int 5" by simp_all
  from a have "0 \<le> \<lfloor>random * 5\<rfloor>" by simp
  moreover from b have "\<lfloor>random * 5\<rfloor> < 5" by (simp only: floor_less_iff)
  ultimately show ?thesis by linarith
qed

lemma chatPOST_demo:
  "\<not> hasApiKey settings \<Longrightarrow>
   chatPOST call random msgs settings =
     \<lparr>response = \<lparr>chat_status = 200, chat_message = getMockResponse msgs random,
                   chat_isDemo = True, chat_provider = ascii ''demo'', chat_error = None\<rparr>,
      providerCalls = [], serverConsole = []\<rparr>"
  by (cases settings) (simp_all add: chatPOST_def hasApiKey_def)

lemma mock_random:
  assumes "0 \<le> random" and "random < 1"
      and "\<not> includes_str (lastUserMessage msgs) KW_NAYAMI"
          "\<not> includes_str (lastUserMessage msgs) KW_KOMARU"
          "\<not> includes_str (lastUserMessage msgs) KW_SHIGOTO"
          "\<not> includes_str (lastUserMessage msgs) KW_YUSEN"
          "\<not> includes_str (lastUserMessage msgs) KW_SEIRI"
          "\<not> includes_str (lastUserMessage msgs) KW_MATOME"
  shows "getMockResponse msgs random = Some (responses ! nat \<lfloor>random * 5\<rfloor>)
         \<and> responses ! nat \<lfloor>random * 5\<rfloor> \<in> set responses"
  using assms random_pick [of random]
  by (simp add: getMockResponse_def length_responses Let_def)

subsection \<open>The loop of the parser and the pipeline\<close>

lemma specHasParts_eq: "specHasParts = hasParts"
  by (rule ext) (auto simp: specHasParts_def hasParts_def Suc_le_eq split: option.splits)

lemma specTimestamp_eq: "specTimestamp = timeKey"
  by (rule ext) (simp add: specTimestamp_def timeKey_def split: option.splits jsnumber.splits)

lemma specInsert_eq: "specInsert node ns = insort_key specTimestamp node ns"
  by (induction ns) simp_all

lemma specSorted_eq: "specSorted nodes = sort_key specTimestamp nodes"
  by (induction nodes) (simp_all add: specSorted_def sort_key_def specInsert_eq)

lemma collect_spec:
  "list_all hasParts nodes \<Longrightarrow> list_all hasAuthor nodes \<Longrightarrow>
   collectMessages env nodes =
     Inr (filter (\<lambda>msg. content msg \<noteq> []) (map (specMessage env) (filter specRoleKept nodes)))"
proof (induction nodes)
  case Nil
  then show ?case by simp
next
  case (Cons node rest)
  then have IH: "collectMessages env rest =
     Inr (filter (\<lambda>msg. content msg \<noteq> []) (map (specMessage env) (filter specRoleKept rest)))"
    by simp
  from Cons.prems obtain msg r ps where n: "message node = Some msg"
    "author_role msg = Some r" "parts msg = Some ps"
    by (auto simp: hasParts_def hasAuthor_def split: option.splits)
  from n have k: "specRoleKept node = (r = ascii ''user'' \<or> r = ascii ''assistant'')"
    by (simp add: specRoleKept_def)
  from n have c: "content (specMessage env node) = trim (join ps [10])"
    by (simp add: specMessage_def specContent_def)
  from n have sm: "specMessage env node =
      \<lparr>m_id = gm_id msg, role = (if r = ascii ''user'' then user else assistant),
       content = trim (join ps [10]), timestamp = dateOfSeconds env (create_time msg)\<rparr>"
    by (simp add: specMessage_def specContent_def)
  show ?case
  proof (cases "r = ascii ''user'' \<or> r = ascii ''assistant''")
    case False
    with n IH k show ?thesis by simp
  next
    case True
    show ?thesis
    proof (cases "trim (join ps [10]) = []")
      case e: True
      with True n IH k c show ?thesis by auto
    next
      case e: False
      with True n IH k c sm show ?thesis by auto
    qed
  qed
qed

lemma collect_throws:
  "list_all hasParts nodes \<Longrightarrow> \<not> list_all hasAuthor nodes \<Longrightarrow>
   collectMessages env nodes
     = Inl (TypeError (ascii ''Cannot read properties of undefined (reading 'role')''))"
proof (induction nodes)
  case Nil
  then show ?case by simp
next
  case (Cons node rest)
  from Cons.prems(1) obtain msg ps where n: "message node = Some msg" "parts msg = Some ps"
    by (auto simp: hasParts_def split: option.splits)
  show ?case
  proof (cases "author_role msg")
    case None
    with n show ?thesis by simp
  next
    case (Some r)
    with n have "hasAuthor node" by (simp add: hasAuthor_def)
    with Cons.prems have "\<not> list_all hasAuthor rest" and "list_all hasParts rest"
      by simp_all
    with Cons.IH have "collectMessages env rest
       = Inl (TypeError (ascii ''Cannot read properties of undefined (reading 'role')''))"
      by blast
    with n Some show ?thesis by simp
  qed
qed

lemma messageNodes_hasParts: "list_all hasParts (messageNodes m)"
  by (simp add: messageNodes_def list_all_iff)

lemma messageNodes_hasAuthor:
  "list_all hasAuthor (messageNodes m) = list_all hasAuthor (filter hasParts (map snd m))"
  by (simp add: messageNodes_def list_all_iff)

lemma messageNodes_spec: "messageNodes m = specSorted (filter specHasParts (map snd m))"
  by (simp add: messageNodes_def specSorted_eq specHasParts_eq specTimestamp_eq)

lemma collect_messageNodes:
  "list_all hasAuthor (filter hasParts (map snd m)) \<Longrightarrow>
   collectMessages env (messageNodes m) = Inr (specMessages env m)"
proof -
  assume "list_all hasAuthor (filter hasParts (map snd m))"
  then have "list_all hasAuthor (messageNodes m)"
    by (simp only: messageNodes_hasAuthor)
  with messageNodes_hasParts [of m]
  have "collectMessages env (messageNodes m) =
     Inr (filter (\<lambda>msg. content msg \<noteq> [])
            (map (specMessage env) (filter specRoleKept (messageNodes m))))"
    by (rule collect_spec)
  then show ?thesis by (simp only: specMessages_def messageNodes_spec)
qed

lemma length_specMessages:
  "length (specMessages env m) =
     length (filter (\<lambda>n. specHasParts n \<and> specRoleKept n \<and> specContent n \<noteq> []) (map snd m))"
proof -
  let ?keep = "\<lambda>n. specRoleKept n \<and> specContent n \<noteq> []"
  have c: "content (specMessage env n) = specContent n" for n
    by (simp add: specMessage_def specContent_def split: option.splits)
  have "specMessages env m
      = map (specMessage env)
          (filter ?keep (sort_key specTimestamp (filter specHasParts (map snd m))))"
    by (simp add: specMessages_def specSorted_eq filter_map comp_def c)
  then have "length (specMessages env m)
      = length (filter ?keep (sort_key specTimestamp (filter specHasParts (map snd m))))"
    by simp
  also have "\<dots> = length (sort_key specTimestamp (filter ?keep (filter specHasParts (map snd m))))"
    by (simp only: filter_sort)
  also have "\<dots> = length (filter (\<lambda>n. specHasParts n \<and> specRoleKept n \<and> specContent n \<noteq> [])
                           (map snd m))"
    by (simp add: conj_commute conj_left_commute)
  finally show ?thesis .
qed

lemma parseConversation_spec:
  assumes "mapping conv = Some m" and "list_all hasAuthor (filter hasParts (map snd m))"
  shows "parseConversation env conv =
           Inr (if specMessages env m = [] then None else Some (specConversation env conv m))"
  using assms collect_messageNodes [of m env]
  by (simp add: parseConversation_def specConversation_def)

lemma parseConversation_throws:
  assumes "mapping conv = Some m" and "\<not> list_all hasAuthor (filter hasParts (map snd m))"
  shows "parseConversation env conv
     = Inl (TypeError (ascii ''Cannot read properties of undefined (reading 'role')''))"
proof -
  from assms(2) have "\<not> list_all hasAuthor (messageNodes m)"
    by (simp add: messageNodes_hasAuthor)
  with messageNodes_hasParts [of m]
  have "collectMessages env (messageNodes m)
     = Inl (TypeError (ascii ''Cannot read properties of undefined (reading 'role')''))"
    by (rule collect_throws)
  with assms(1) show ?thesis by (simp add: parseConversation_def)
qed

lemma parse_all:
  "parseChatGPTExport env (map Some recs) =
     (Inr (List.map_filter (conversationOf env) recs),
      List.map_filter (failureOf env) recs)"
proof (induction recs)
  case Nil
  then show ?case by simp
next
  case (Cons r rest)
  show ?case
  proof (cases "parseConversation env r")
    case (Inl e)
    with Cons show ?thesis
      by (simp add: conversationOf_def failureOf_def)
  next
    case (Inr c)
    with Cons show ?thesis
      by (cases c) (simp_all add: conversationOf_def failureOf_def)
  qed
qed

lemma parse_null:
  "fst (parseChatGPTExport env (map Some recs @ None # rest)) =
     Inl (TypeError (ascii ''Cannot read properties of null (reading 'id')''))"
proof (induction recs)
  case Nil
  then show ?case by simp
next
  case (Cons r recs)
  then show ?case
    by (cases "parseChatGPTExport env (map Some recs @ None # rest)")
       (auto split: sum.splits option.splits)
qed

subsection \<open>The example export\<close>

lemma example_specMessages:
  "specMessages exampleEnv
     [exportNode ''c'' ''assistant'' [ascii ''Hi'', ascii ''there''] 3,
      exportNode ''b'' ''system'' [ascii ''You are helpful''] 1,
      exportNode ''a'' ''user'' [ascii ''Hello''] 2,
      exportNode ''d'' ''user'' [ascii '' bye ''] 3] = exampleMessages"
  by (simp add: specMessages_def exportNode_def specHasParts_def specTimestamp_def specSorted_def
        specRoleKept_def specMessage_def specContent_def trim_def isWhiteSpace_def
        dateOfSeconds_def newDate_def exampleMessages_def exampleEnv_def ascii_def)

lemma example_authors:
  "list_all hasAuthor (filter hasParts (map snd
     [exportNode ''c'' ''assistant'' [ascii ''Hi'', ascii ''there''] 3,
      exportNode ''b'' ''system'' [ascii ''You are helpful''] 1,
      exportNode ''a'' ''user'' [ascii ''Hello''] 2,
      exportNode ''d'' ''user'' [ascii '' bye ''] 3]))"
  by (simp add: exportNode_def hasParts_def hasAuthor_def)

lemma example_mapping:
  "mapping exampleExport = Some
     [exportNode ''c'' ''assistant'' [ascii ''Hi'', ascii ''there''] 3,
      exportNode ''b'' ''system'' [ascii ''You are helpful''] 1,
      exportNode ''a'' ''user'' [ascii ''Hello''] 2,
      exportNode ''d'' ''user'' [ascii '' bye ''] 3]"
  by (simp add: exampleExport_def)

lemma example_conversation:
  "specConversation exampleEnv exampleExport
     [exportNode ''c'' ''assistant'' [ascii ''Hi'', ascii ''there''] 3,
      exportNode ''b'' ''system'' [ascii ''You are helpful''] 1,
      exportNode ''a'' ''user'' [ascii ''Hello''] 2,
      exportNode ''d'' ''user'' [ascii '' bye ''] 3] = exampleImported exampleEnv"
  unfolding specConversation_def example_specMessages
  by (simp add: exampleImported_def exampleExport_def dateOfSeconds_def newDate_def
        exampleEnv_def ascii_def)

lemma example_parse:
  "parseConversation exampleEnv exampleExport = Inr (Some (exampleImported exampleEnv))"
  using parseConversation_spec [OF example_mapping example_authors, of exampleEnv]
  by (simp add: example_specMessages example_conversation exampleMessages_def)

lemma malformed_parse:
  "parseConversation env malformedExport
     = Inl (TypeError (ascii ''Cannot convert undefined or null to object''))"
  by (simp add: parseConversation_def malformedExport_def)

subsection \<open>The merges of the summary and of the title\<close>



section \<open>The claims\<close>

subsection \<open>C1: the completion is merged by the captured id\<close>




subsection \<open>C2: which operations refresh \<open>updatedAt\<close>\<close>

text \<open>
  C2, as stated, fails for the pin toggle and for the tag operations: they build the new
  conversation from the old one and the targeted field alone. \<open>conv-1\<close> was last
  updated at 1; after its pin is toggled, and after a tag is added, \<open>updatedAt\<close> is
  still 1, whenever that happens.
\<close>

theorem C2_counterexample:
  "updatedAt conv1 = Date 1
   \<and> handleTogglePin (ascii ''conv-1'') [twoConversationFolder]
       = [twoConversationFolder\<lparr>conversations := [conv1\<lparr>isPinned := True\<rparr>, conv2]\<rparr>]
   \<and> updatedAt (conv1\<lparr>isPinned := True\<rparr>) = Date 1
   \<and> handleAddTag (ascii ''conv-1'') \<lparr>tag_id = ascii ''tag-7'', tag_name = ascii ''work'', color = ascii ''blue''\<rparr>
         [twoConversationFolder]
       = [twoConversationFolder\<lparr>conversations :=
            [conv1\<lparr>tags := [\<lparr>tag_id = ascii ''tag-7'', tag_name = ascii ''work'', color = ascii ''blue''\<rparr>]\<rparr>,
             conv2]\<rparr>]"
  by (simp add: handleTogglePin_def handleAddTag_def mapConversations_def togglePin_def
        addTag_def twoConversationFolder_def conv1_def conv2_def ascii_def)

text \<open>
  C2, amended. Every operation leaves all fields but the targeted one and \<open>updatedAt\<close>
  unchanged, with one exception: appending the user's message also replaces the
  placeholder title by the truncated text. The operations on messages (the append of the
  user's message, the merge of the completion) and on the document (the editor, the
  merge of the summary) set \<open>updatedAt\<close> to the time of the operation. The pin toggle,
  \<open>addTag\<close>, \<open>removeTag\<close> and the merge of the title leave \<open>updatedAt\<close> as it is, in
  every conversation of the collection.
\<close>

theorem C2_updatedAt:
  "(togglePin convId conv)\<lparr>isPinned := isPinned conv\<rparr> = conv
   \<and> (addTag convId tag conv)\<lparr>tags := tags conv\<rparr> = conv
   \<and> (removeTag convId tagId conv)\<lparr>tags := tags conv\<rparr> = conv
   \<and> (setTitle convId ttl conv)\<lparr>title := title conv\<rparr> = conv
   \<and> (setMessages convId msgs now conv)\<lparr>messages := messages conv, updatedAt := updatedAt conv\<rparr>
       = conv
   \<and> (setSummary convId doc now conv)
         \<lparr>documentContent := documentContent conv, updatedAt := updatedAt conv\<rparr> = conv
   \<and> (setDocumentContent convId doc now conv)
         \<lparr>documentContent := documentContent conv, updatedAt := updatedAt conv\<rparr> = conv
   \<and> (appendUserMessage convId msg ttl now conv)
         \<lparr>messages := messages conv, title := title conv, updatedAt := updatedAt conv\<rparr> = conv
   \<and> updatedAt (setMessages (c_id conv) msgs now conv) = Date now
   \<and> updatedAt (setSummary (c_id conv) doc now conv) = Date now
   \<and> updatedAt (setDocumentContent (c_id conv) doc now conv) = Date now
   \<and> updatedAt (appendUserMessage (c_id conv) msg ttl now conv) = Date now
   \<and> messages (appendUserMessage (c_id conv) msg ttl now conv) = messages conv @ [msg]
   \<and> title (appendUserMessage (c_id conv) msg ttl now conv)
       = (if title conv = NEW_CONVERSATION_TITLE \<and> ttl \<noteq> [] then truncateTitle ttl
          else title conv)
   \<and> isPinned (togglePin (c_id conv) conv) = (\<not> isPinned conv)
   \<and> map (map updatedAt \<circ> conversations) (handleTogglePin convId prev)
       = map (map updatedAt \<circ> conversations) prev
   \<and> map (map updatedAt \<circ> conversations) (handleAddTag convId tag prev)
       = map (map updatedAt \<circ> conversations) prev
   \<and> map (map updatedAt \<circ> conversations) (handleRemoveTag convId tagId prev)
       = map (map updatedAt \<circ> conversations) prev
   \<and> map (map updatedAt \<circ> conversations) (mapConversations (setTitle convId ttl) prev)
       = map (map updatedAt \<circ> conversations) prev"
proof -
  have 1: "(togglePin convId conv)\<lparr>isPinned := isPinned conv\<rparr> = conv"
    by (simp add: togglePin_def)
  have 2: "(addTag convId tag conv)\<lparr>tags := tags conv\<rparr> = conv"
    by (simp add: addTag_def)
  have 3: "(removeTag convId tagId conv)\<lparr>tags := tags conv\<rparr> = conv"
    by (simp add: removeTag_def)
  have 4: "(setTitle convId ttl conv)\<lparr>title := title conv\<rparr> = conv"
    by (simp add: setTitle_def)
  have 6: "(setMessages convId msgs now conv)\<lparr>messages := messages conv, updatedAt := updatedAt conv\<rparr>
       = conv"
    by (simp add: setMessages_def)
  have 7: "(setSummary convId doc now conv)
         \<lparr>documentContent := documentContent conv, updatedAt := updatedAt conv\<rparr> = conv"
    by (simp add: setSummary_def)
  have 8: "(setDocumentContent convId doc now conv)
         \<lparr>documentContent := documentContent conv, updatedAt := updatedAt conv\<rparr> = conv"
    by (simp add: setDocumentContent_def)
  have 9: "(appendUserMessage convId msg ttl now conv)
         \<lparr>messages := messages conv, title := title conv, updatedAt := updatedAt conv\<rparr> = conv"
    by (simp add: appendUserMessage_def)
  have 10: "updatedAt (setMessages (c_id conv) msgs now conv) = Date now"
    "updatedAt (setSummary (c_id conv) doc now conv) = Date now"
    "updatedAt (setDocumentContent (c_id conv) doc now conv) = Date now"
    "updatedAt (appendUserMessage (c_id conv) msg ttl now conv) = Date now"
    "messages (appendUserMessage (c_id conv) msg ttl now conv) = messages conv @ [msg]"
    "title (appendUserMessage (c_id conv) msg ttl now conv)
       = (if title conv = NEW_CONVERSATION_TITLE \<and> ttl \<noteq> [] then truncateTitle ttl
          else title conv)"
    "isPinned (togglePin (c_id conv) conv) = (\<not> isPinned conv)"
    by (simp_all add: setMessages_def setSummary_def setDocumentContent_def
          appendUserMessage_def togglePin_def)
  have 11: "map (map updatedAt \<circ> conversations) (handleTogglePin convId prev)
       = map (map updatedAt \<circ> conversations) prev"
    unfolding handleTogglePin_def
    by (rule mapConversations_updatedAt) (simp add: togglePin_def)
  have 12: "map (map updatedAt \<circ> conversations) (handleAddTag convId tag prev)
       = map (map updatedAt \<circ> conversations) prev"
    unfolding handleAddTag_def
    by (rule mapConversations_updatedAt) (simp add: addTag_def)
  have 13: "map (map updatedAt \<circ> conversations) (handleRemoveTag convId tagId prev)
       = map (map updatedAt \<circ> conversations) prev"
    unfolding handleRemoveTag_def
    by (rule mapConversations_updatedAt) (simp add: removeTag_def)
  have 14: "map (map updatedAt \<circ> conversations) (mapConversations (setTitle convId ttl) prev)
       = map (map updatedAt \<circ> conversations) prev"
    by (rule mapConversations_updatedAt) (simp add: setTitle_def)
  from 1 2 3 4 6 7 8 9 10 11 12 13 14 show ?thesis by blast
qed

subsection \<open>C3: a failed summarization\<close>

text \<open>
  C3 is what the handler is written to do, and the code breaks it when the provider
  fails. The catch branch of \<open>handleSendMessage\<close> around the summary request carries
  the comment \<open>Keep messages updated even if summary fails\<close>, and it keeps the document
  when the request itself throws: in the state with the document \<open>my notes\<close> in
  \<open>conv-1\<close>, a request that fails to fetch leaves the state as it was but for the
  entry in the console and the cleared loading flag. When the provider call throws inside
  the summarize route, the route logs the error and signals the failure with the status
  500 and an \<open>error\<close> field, and puts the fallback text for an empty transcript into
  \<open>summary\<close>. The handler does not test the status of the response, as the merge of the
  title next to it does (an answer that is not \<open>ok\<close> leaves the title alone), and writes
  that text over the document: \<open>my notes\<close> is replaced by the summary of a conversation
  without messages, although the conversation has two.
\<close>

theorem C3_provider_failure:
  "summarizePOST failingProvider (map toApi [hiMessage, okMessage]) (Some openaiSettings)
     = \<lparr>response = \<lparr>sum_status = 500, sum_summary = FALLBACK_EMPTY, sum_isDemo = True,
                      sum_error = Some (ascii ''quota'')\<rparr>,
         providerCalls = [(ascii ''openai'', ascii ''sk-1'', ascii ''gpt'',
                           map toApi [hiMessage, okMessage])],
         serverConsole = [(ascii ''Summarize API error:'', Error (ascii ''quota''))]\<rparr>
   \<and> map documentContent (concat (map conversations (folders notesState)))
       = [ascii ''my notes'', []]
   \<and> map documentContent (concat (map conversations (folders (fst
         (summarySettled hiTaskAI
            (Resolved (sum_summary (response
               (summarizePOST failingProvider (map toApi [hiMessage, okMessage])
                  (Some openaiSettings)))))
            30 notesState)))))
       = [FALLBACK_EMPTY, []]
   \<and> FALLBACK_EMPTY \<noteq> ascii ''my notes''
   \<and> FALLBACK_EMPTY = generateFallbackSummary []
   \<and> fst (summarySettled hiTaskAI (Rejected (TypeError (ascii ''Failed to fetch''))) 30 notesState)
       = notesState\<lparr>console := [(ascii ''Failed to generate summary:'',
                                   TypeError (ascii ''Failed to fetch''))],
                   isLoading := False\<rparr>
   \<and> titleSettled hiTaskAI (Resolved (False, ascii ''Untitled'')) notesState = notesState"
proof -
  have r: "summarizePOST failingProvider (map toApi [hiMessage, okMessage]) (Some openaiSettings)
     = \<lparr>response = \<lparr>sum_status = 500, sum_summary = FALLBACK_EMPTY, sum_isDemo = True,
                      sum_error = Some (message_of (Error (ascii ''quota'')))\<rparr>,
         providerCalls = [(provider openaiSettings, apiKey openaiSettings, model openaiSettings,
                           truncateMessages 30 (map toApi [hiMessage, okMessage]))],
         serverConsole = [(ascii ''Summarize API error:'', Error (ascii ''quota''))]\<rparr>"
    using failing_known by (intro summarizePOST_provider_fails) (simp_all add: failingProvider_def)
  then have 1: "summarizePOST failingProvider (map toApi [hiMessage, okMessage])
       (Some openaiSettings)
     = \<lparr>response = \<lparr>sum_status = 500, sum_summary = FALLBACK_EMPTY, sum_isDemo = True,
                      sum_error = Some (ascii ''quota'')\<rparr>,
         providerCalls = [(ascii ''openai'', ascii ''sk-1'', ascii ''gpt'',
                           map toApi [hiMessage, okMessage])],
         serverConsole = [(ascii ''Summarize API error:'', Error (ascii ''quota''))]\<rparr>"
    by (simp add: message_of_def openaiSettings_def truncateMessages_def)
  have 2: "map documentContent (concat (map conversations (folders notesState)))
       = [ascii ''my notes'', []]"
    by (simp add: notesState_def twoConversationFolder_def conv1_def conv2_def)
  have "map documentContent (concat (map conversations (folders (fst
         (summarySettled hiTaskAI (Resolved FALLBACK_EMPTY) 30 notesState)))))
       = [FALLBACK_EMPTY, []]"
    by (simp add: summarySettled_folders mapConversations_def setSummary_def notesState_def
          hiTaskAI_def hiTask_def twoConversationFolder_def conv1_def conv2_def ascii_def)
  with 1 have 3: "map documentContent (concat (map conversations (folders (fst
         (summarySettled hiTaskAI
            (Resolved (sum_summary (response
               (summarizePOST failingProvider (map toApi [hiMessage, okMessage])
                  (Some openaiSettings)))))
            30 notesState)))))
       = [FALLBACK_EMPTY, []]"
    by simp
  have 4: "FALLBACK_EMPTY \<noteq> ascii ''my notes''"
    by (simp add: FALLBACK_EMPTY_def ascii_def)
  have 5: "FALLBACK_EMPTY = generateFallbackSummary []"
    by (simp add: generateFallbackSummary_def)
  have 6: "fst (summarySettled hiTaskAI (Rejected (TypeError (ascii ''Failed to fetch''))) 30
                 notesState)
       = notesState\<lparr>console := [(ascii ''Failed to generate summary:'',
                                   TypeError (ascii ''Failed to fetch''))],
                   isLoading := False\<rparr>"
    by (simp add: summarySettled_def Let_def notesState_def)
  have 7: "titleSettled hiTaskAI (Resolved (False, ascii ''Untitled'')) notesState = notesState"
    by (simp add: titleSettled_def)
  from 1 2 3 4 5 6 7 show ?thesis by blast
qed

subsection \<open>C4: a failed completion\<close>




subsection \<open>C5: an import with a malformed record\<close>

text \<open>
  C5, as stated, fails in its second half: the parser reports a record that throws on
  the console only. For the array of a record without a mapping and a well-formed record
  the result holds the conversation of the second record and counts the first as
  skipped, and its list of errors is empty.
\<close>

theorem C5_counterexample:
  "parseConversation exampleEnv malformedExport
     = Inl (TypeError (ascii ''Cannot convert undefined or null to object''))
   \<and> parseConversation exampleEnv exampleExport
     = Inr (Some (exampleImported exampleEnv))
   \<and> handleFileSelect exampleEnv (Array [Some malformedExport, Some exampleExport])
     = (\<lparr>success = True, imported = 1, skipped = 1, errors = []\<rparr>,
        [exampleImported exampleEnv],
        [(ascii ''Failed to parse conversation:'' @ [32] @ ascii ''bad'',
          TypeError (ascii ''Cannot convert undefined or null to object''))])"
  by (simp add: handleFileSelect_def example_parse malformed_parse)
     (simp add: malformedExport_def)

text \<open>
  C5, amended. For an array of records (no \<open>null\<close> element), the conversations of the
  result are, in the order of the array, those of the records whose body does not throw
  and leaves at least one message; \<open>imported\<close> is their number, \<open>skipped\<close> the number of
  the other records, every record that throws has its entry in the console, and the
  list of errors of the result is empty. A record throws when it has no mapping or when
  a node with parts has no author; otherwise it gives the conversation of C9. A \<open>null\<close>
  element makes the whole parse throw.
\<close>

theorem C5_import:
  "parseChatGPTExport env (map Some recs)
     = (Inr (List.map_filter (conversationOf env) recs),
        List.map_filter (failureOf env) recs)
   \<and> handleFileSelect env (Array (map Some recs))
     = (\<lparr>success = True,
         imported = length (List.map_filter (conversationOf env) recs),
         skipped = length recs - length (List.map_filter (conversationOf env) recs),
         errors = []\<rparr>,
        List.map_filter (conversationOf env) recs,
        List.map_filter (failureOf env) recs)
   \<and> parseConversation env (r\<lparr>mapping := None\<rparr>)
     = Inl (TypeError (ascii ''Cannot convert undefined or null to object''))
   \<and> (mapping r = Some m \<and> \<not> list_all hasAuthor (filter hasParts (map snd m)) \<longrightarrow>
        (\<exists>e. parseConversation env r = Inl e))
   \<and> (mapping r = Some m \<and> list_all hasAuthor (filter hasParts (map snd m)) \<longrightarrow>
        conversationOf env r
          = (if specMessages env m = [] then None else Some (specConversation env r m))
        \<and> failureOf env r = None)
   \<and> fst (parseChatGPTExport env (map Some recs @ None # rest))
     = Inl (TypeError (ascii ''Cannot read properties of null (reading 'id')''))"
proof -
  have 1: "parseChatGPTExport env (map Some recs)
     = (Inr (List.map_filter (conversationOf env) recs),
        List.map_filter (failureOf env) recs)"
    by (rule parse_all)
  then have 2: "handleFileSelect env (Array (map Some recs))
     = (\<lparr>success = True,
         imported = length (List.map_filter (conversationOf env) recs),
         skipped = length recs - length (List.map_filter (conversationOf env) recs),
         errors = []\<rparr>,
        List.map_filter (conversationOf env) recs,
        List.map_filter (failureOf env) recs)"
    by (simp add: handleFileSelect_def)
  have 3: "parseConversation env (r\<lparr>mapping := None\<rparr>)
     = Inl (TypeError (ascii ''Cannot convert undefined or null to object''))"
    by (simp add: parseConversation_def)
  have 4: "mapping r = Some m \<and> \<not> list_all hasAuthor (filter hasParts (map snd m)) \<longrightarrow>
        (\<exists>e. parseConversation env r = Inl e)"
    using parseConversation_throws [of r m env] by blast
  have 5: "mapping r = Some m \<and> list_all hasAuthor (filter hasParts (map snd m)) \<longrightarrow>
        conversationOf env r
          = (if specMessages env m = [] then None else Some (specConversation env r m))
        \<and> failureOf env r = None"
    using parseConversation_spec [of r m env]
    by (simp add: conversationOf_def failureOf_def)
  from 1 2 3 4 5 parse_null [of env recs rest] show ?thesis by blast
qed

text \<open>
  Witness for C5: the record whose node has no author throws, and the well-formed record
  gives its conversation and no entry in the console.
\<close>

theorem C5_import_witness:
  "(\<exists>e. parseConversation exampleEnv anonymousExport = Inl e)
   \<and> conversationOf exampleEnv exampleExport
      = Some (exampleImported exampleEnv)
   \<and> failureOf exampleEnv exampleExport = None"
proof -
  have a: "mapping anonymousExport = Some
        [(ascii ''a'',
          \<lparr>node_id = ascii ''a'',
           message = Some \<lparr>gm_id = ascii ''a'', author_role = None,
                           parts = Some [ascii ''Hello''], create_time = Number 2\<rparr>\<rparr>)]
     \<and> \<not> list_all hasAuthor (filter hasParts (map snd
        [(ascii ''a'',
          \<lparr>node_id = ascii ''a'',
           message = Some \<lparr>gm_id = ascii ''a'', author_role = None,
                           parts = Some [ascii ''Hello''], create_time = Number 2\<rparr>\<rparr>)]))"
    by (simp add: anonymousExport_def hasParts_def hasAuthor_def)
  from a C5_import [where r = anonymousExport and env = exampleEnv]
  have 1: "\<exists>e. parseConversation exampleEnv anonymousExport = Inl e"
    by blast
  from example_mapping example_authors
    C5_import [where r = exampleExport and env = exampleEnv]
  have "conversationOf exampleEnv exampleExport
          = (if specMessages exampleEnv
     [exportNode ''c'' ''assistant'' [ascii ''Hi'', ascii ''there''] 3,
      exportNode ''b'' ''system'' [ascii ''You are helpful''] 1,
      exportNode ''a'' ''user'' [ascii ''Hello''] 2,
      exportNode ''d'' ''user'' [ascii '' bye ''] 3] = [] then None else Some (specConversation exampleEnv exampleExport
     [exportNode ''c'' ''assistant'' [ascii ''Hi'', ascii ''there''] 3,
      exportNode ''b'' ''system'' [ascii ''You are helpful''] 1,
      exportNode ''a'' ''user'' [ascii ''Hello''] 2,
      exportNode ''d'' ''user'' [ascii '' bye ''] 3]))
        \<and> failureOf exampleEnv exampleExport = None"
    by blast
  then have 2: "conversationOf exampleEnv exampleExport
      = Some (exampleImported exampleEnv)
   \<and> failureOf exampleEnv exampleExport = None"
    by (simp add: example_specMessages example_conversation exampleMessages_def)
  from 1 2 show ?thesis by simp
qed

subsection \<open>C6: deleting the last folder\<close>

text \<open>
  C6 is what \<open>handleFolderDelete\<close> is written to keep, and the code breaks it. The guard
  of the handler carries the comment \<open>Don't delete if it's the last folder\<close>; it counts
  the folders (\<open>prev.length <= 1\<close>), while the filter after it removes every folder
  with the id. On the initial state the guard does its work: deleting \<open>folder-1\<close>
  changes nothing. But a folder gets the id \<open>folder-<now>\<close>, and nothing compares it
  with the ids in use. Two folders created at the same reading of the clock share the id
  \<open>folder-5\<close>; after the initial folder is deleted they are the two folders left, the
  guard lets the deletion of \<open>folder-5\<close> pass, and the filter removes both. The state
  without folders is reached, and the next creation of a conversation throws on
  \<open>updated[0].conversations\<close>.
\<close>

theorem C6_shared_folder_id:
  "handleFolderDelete (ascii ''folder-1'') initialState = initialState
   \<and> run [FolderCreate 5, FolderCreate 5, FolderDelete (ascii ''folder-1'')] initialState
     = Inr (initialState\<lparr>folders :=
              [\<lparr>f_id = ascii ''folder-5'', name = NEW_FOLDER_NAME, conversations = [],
                isExpanded = True\<rparr>,
               \<lparr>f_id = ascii ''folder-5'', name = NEW_FOLDER_NAME, conversations = [],
                isExpanded = True\<rparr>]\<rparr>)
   \<and> run [FolderCreate 5, FolderCreate 5, FolderDelete (ascii ''folder-1''),
          FolderDelete (ascii ''folder-5'')] initialState
     = Inr (initialState\<lparr>folders := []\<rparr>)
   \<and> run [FolderCreate 5, FolderCreate 5, FolderDelete (ascii ''folder-1''),
          FolderDelete (ascii ''folder-5''), NewConversation 6] initialState
     = Inl (TypeError (ascii ''Cannot read properties of undefined (reading 'conversations')''))"
proof -
  have 1: "handleFolderDelete (ascii ''folder-1'') initialState = initialState"
    by (simp add: handleFolderDelete_def initialState_def)
  have 2: "run [FolderCreate 5, FolderCreate 5, FolderDelete (ascii ''folder-1'')] initialState
     = Inr (initialState\<lparr>folders :=
              [\<lparr>f_id = ascii ''folder-5'', name = NEW_FOLDER_NAME, conversations = [],
                isExpanded = True\<rparr>,
               \<lparr>f_id = ascii ''folder-5'', name = NEW_FOLDER_NAME, conversations = [],
                isExpanded = True\<rparr>]\<rparr>)"
    by (simp add: step_def handleFolderCreate_def handleFolderDelete_def initialState_def
          toString_def ascii_def Let_def)
  have 3: "run [FolderCreate 5, FolderCreate 5, FolderDelete (ascii ''folder-1''),
          FolderDelete (ascii ''folder-5'')] initialState
     = Inr (initialState\<lparr>folders := []\<rparr>)"
    by (simp add: step_def handleFolderCreate_def handleFolderDelete_def initialState_def
          toString_def ascii_def Let_def)
  have 4: "run [FolderCreate 5, FolderCreate 5, FolderDelete (ascii ''folder-1''),
          FolderDelete (ascii ''folder-5''), NewConversation 6] initialState
     = Inl (TypeError (ascii ''Cannot read properties of undefined (reading 'conversations')''))"
    by (simp add: step_def handleFolderCreate_def handleFolderDelete_def initialState_def
          handleNewConversation_def prependToFirstFolder_def toString_def ascii_def Let_def)
  from 1 2 3 4 show ?thesis by blast
qed

subsection \<open>C7: creating a conversation under an id in use\<close>

text \<open>
  C7 is what the creation is written to do, and the code breaks it. The updater of a
  creation carries the comment \<open>Check if conversation with same ID already exists\<close>,
  and it looks for the new id in \<open>updated[0].conversations\<close> only, the folder it inserts
  into, while every lookup and update of the component goes by the id over all folders.
  When the first folder holds \<open>conv-5\<close>, a creation at the clock reading 5 is rejected
  and the folders are unchanged. In the state with an empty first folder and \<open>conv-5\<close>
  in the second, the same creation adds a second \<open>conv-5\<close> to the first folder; so does
  the implicit creation of \<open>handleSendMessage\<close>, and the user's message is then
  appended to both conversations.
\<close>

theorem C7_id_in_later_folder:
  "handleNewConversation 5 conv5State
     = Inr (conv5State\<lparr>activeConversationId := Some (ascii ''conv-5'')\<rparr>)
   \<and> findConversation (ascii ''conv-5'') (folders twoFolderState) = Some conv5
   \<and> handleNewConversation 5 twoFolderState
      = Inr (twoFolderState\<lparr>folders :=
               [(folders twoFolderState ! 0)\<lparr>conversations := [conv5]\<rparr>,
                folders twoFolderState ! 1],
             activeConversationId := Some (ascii ''conv-5'')\<rparr>)
   \<and> map c_id (concat (map conversations
         (case handleNewConversation 5 twoFolderState of Inr s' \<Rightarrow> folders s' | Inl e \<Rightarrow> [])))
      = [ascii ''conv-5'', ascii ''conv-5'']
   \<and> map (\<lambda>c. (c_id c, map content (messages c))) (concat (map conversations
         (case sendMessageDispatch (ascii ''hi'') 5 None twoFolderState of
            Inr (s', task, req) \<Rightarrow> folders s' | Inl e \<Rightarrow> [])))
      = [(ascii ''conv-5'', [ascii ''hi'']), (ascii ''conv-5'', [ascii ''hi''])]"
proof -
  have 1: "handleNewConversation 5 conv5State
     = Inr (conv5State\<lparr>activeConversationId := Some (ascii ''conv-5'')\<rparr>)"
    by (simp add: conv5State_def conv5Folder_def conv5_def handleNewConversation_def
          prependToFirstFolder_def toString_def ascii_def Let_def)
  have 2: "findConversation (ascii ''conv-5'') (folders twoFolderState) = Some conv5
   \<and> handleNewConversation 5 twoFolderState
      = Inr (twoFolderState\<lparr>folders :=
               [(folders twoFolderState ! 0)\<lparr>conversations := [conv5]\<rparr>,
                folders twoFolderState ! 1],
             activeConversationId := Some (ascii ''conv-5'')\<rparr>)
   \<and> map c_id (concat (map conversations
         (case handleNewConversation 5 twoFolderState of Inr s' \<Rightarrow> folders s' | Inl e \<Rightarrow> [])))
      = [ascii ''conv-5'', ascii ''conv-5'']"
    by (simp add: twoFolderState_def conv5_def findConversation_def handleNewConversation_def
          prependToFirstFolder_def toString_def ascii_def Let_def)
  have 3: "map (\<lambda>c. (c_id c, map content (messages c))) (concat (map conversations
         (case sendMessageDispatch (ascii ''hi'') 5 None twoFolderState of
            Inr (s', task, req) \<Rightarrow> folders s' | Inl e \<Rightarrow> [])))
      = [(ascii ''conv-5'', [ascii ''hi'']), (ascii ''conv-5'', [ascii ''hi''])]"
    by (simp add: twoFolderState_def conv5_def sendMessageDispatch_def truthy_def
          prependToFirstFolder_def mapConversations_def appendUserMessage_def
          truncateTitle_def findConversation_def toString_def ascii_def Let_def)
  from 1 2 3 show ?thesis by blast
qed

subsection \<open>C8: moving a conversation\<close>

text \<open>
  C8, as stated, fails where it says that a move of a conversation that is already in
  the target folder leaves the collection unchanged: \<open>conv-2\<close> is the second
  conversation of \<open>folder-1\<close>, and moving it to \<open>folder-1\<close> puts it first. The handler
  has no test for the folder the conversation is in; the menu of the explorer offers the
  other folders only.
\<close>

theorem C8_counterexample:
  "findConversation (ascii ''conv-2'') [twoConversationFolder] \<noteq> None
   \<and> f_id twoConversationFolder = ascii ''folder-1''
   \<and> handleConversationMove (ascii ''conv-2'') (ascii ''folder-1'') [twoConversationFolder]
       = [twoConversationFolder\<lparr>conversations := rev (conversations twoConversationFolder)\<rparr>]
   \<and> handleConversationMove (ascii ''conv-2'') (ascii ''folder-1'') [twoConversationFolder]
       \<noteq> [twoConversationFolder]"
  by (simp add: twoConversationFolder_def conv1_def conv2_def findConversation_def
        handleConversationMove_def ascii_def)

text \<open>
  C8, amended. A move of an id that no conversation has leaves the collection unchanged.
  Otherwise, conversation ids being unique in the collection, the one update removes the
  conversation from the folder that holds it and puts it in front of the conversations of
  every folder with the target id. This is also what happens when it is already in the
  target folder: it moves to the front there.
\<close>

theorem C8_move:
  "(findConversation convId prev = None \<longrightarrow> handleConversationMove convId target prev = prev)
   \<and> (distinct (map c_id (concat (map conversations prev)))
        \<and> findConversation convId prev = Some c \<longrightarrow>
      handleConversationMove convId target prev =
        map (\<lambda>folder. folder\<lparr>conversations :=
               (if f_id folder = target then [c] else [])
               @ filter (\<lambda>x. c_id x \<noteq> convId) (conversations folder)\<rparr>) prev)"
  using move_not_found move_found by blast

text \<open>
  Witness for C8: in the folder with \<open>conv-1\<close> and \<open>conv-2\<close>, moving the unknown
  \<open>conv-9\<close> changes nothing, and moving \<open>conv-2\<close> to its own folder puts it first.
\<close>

theorem C8_move_witness:
  "handleConversationMove (ascii ''conv-9'') (ascii ''folder-1'') [twoConversationFolder]
     = [twoConversationFolder]
   \<and> handleConversationMove (ascii ''conv-2'') (ascii ''folder-1'') [twoConversationFolder]
     = [twoConversationFolder\<lparr>conversations := rev (conversations twoConversationFolder)\<rparr>]"
proof -
  have n: "findConversation (ascii ''conv-9'') [twoConversationFolder] = None"
    by (simp add: twoConversationFolder_def conv1_def conv2_def findConversation_def ascii_def)
  have d: "distinct (map c_id (concat (map conversations [twoConversationFolder])))"
    by (simp add: twoConversationFolder_def conv1_def conv2_def ascii_def)
  have f: "findConversation (ascii ''conv-2'') [twoConversationFolder]
             = Some (conversations twoConversationFolder ! 1)"
    by (simp add: twoConversationFolder_def conv1_def conv2_def findConversation_def ascii_def)
  from C8_move [where convId = "ascii ''conv-9''" and prev = "[twoConversationFolder]"
      and target = "ascii ''folder-1''"] n
  have 1: "handleConversationMove (ascii ''conv-9'') (ascii ''folder-1'') [twoConversationFolder]
     = [twoConversationFolder]" by simp
  from C8_move [where convId = "ascii ''conv-2''" and prev = "[twoConversationFolder]"
      and c = "conversations twoConversationFolder ! 1" and target = "ascii ''folder-1''"] d f
  have "handleConversationMove (ascii ''conv-2'') (ascii ''folder-1'') [twoConversationFolder]
     = map (\<lambda>folder. folder\<lparr>conversations :=
               (if f_id folder = ascii ''folder-1'' then [conversations twoConversationFolder ! 1] else [])
               @ filter (\<lambda>x. c_id x \<noteq> ascii ''conv-2'') (conversations folder)\<rparr>) [twoConversationFolder]"
    by blast
  then have 2: "handleConversationMove (ascii ''conv-2'') (ascii ''folder-1'') [twoConversationFolder]
     = [twoConversationFolder\<lparr>conversations := rev (conversations twoConversationFolder)\<rparr>]"
    by (simp add: twoConversationFolder_def conv1_def conv2_def ascii_def)
  from 1 2 show ?thesis by simp
qed

subsection \<open>C9: the messages of an imported conversation\<close>

text \<open>
  C9, as stated, fails for a record in which a node with a content part has no author.
  The loop reads \<open>msg.author.role\<close> of every node that has parts, before it looks at
  the role; on a missing author this throws, and the \<open>catch\<close> of the parser skips the
  whole record. For the record with a user message at 1 and an authorless message at 2
  the pipeline of the claim yields the user message, while the parser emits nothing: the
  record is logged and counted as skipped.
\<close>

theorem C9_counterexample:
  "mapping mixedExport = Some
     [exportNode ''u'' ''user'' [ascii ''Hello''] 1,
      (ascii ''x'',
       \<lparr>node_id = ascii ''x'',
        message = Some \<lparr>gm_id = ascii ''x'', author_role = None,
                        parts = Some [ascii ''draft''], create_time = Number 2\<rparr>\<rparr>)]
   \<and> specMessages exampleEnv
     [exportNode ''u'' ''user'' [ascii ''Hello''] 1,
      (ascii ''x'',
       \<lparr>node_id = ascii ''x'',
        message = Some \<lparr>gm_id = ascii ''x'', author_role = None,
                        parts = Some [ascii ''draft''], create_time = Number 2\<rparr>\<rparr>)]
     = [\<lparr>m_id = ascii ''u'', role = user, content = ascii ''Hello'', timestamp = Date 1000\<rparr>]
   \<and> parseConversation exampleEnv mixedExport
     = Inl (TypeError (ascii ''Cannot read properties of undefined (reading 'role')''))
   \<and> handleFileSelect exampleEnv (Array [Some mixedExport])
     = (\<lparr>success = True, imported = 0, skipped = 1, errors = []\<rparr>, [],
        [(ascii ''Failed to parse conversation:'' @ [32] @ ascii ''mix'',
          TypeError (ascii ''Cannot read properties of undefined (reading 'role')''))])"
proof -
  have 1: "mapping mixedExport = Some
     [exportNode ''u'' ''user'' [ascii ''Hello''] 1,
      (ascii ''x'',
       \<lparr>node_id = ascii ''x'',
        message = Some \<lparr>gm_id = ascii ''x'', author_role = None,
                        parts = Some [ascii ''draft''], create_time = Number 2\<rparr>\<rparr>)]"
    by (simp add: mixedExport_def)
  have 2: "specMessages exampleEnv
     [exportNode ''u'' ''user'' [ascii ''Hello''] 1,
      (ascii ''x'',
       \<lparr>node_id = ascii ''x'',
        message = Some \<lparr>gm_id = ascii ''x'', author_role = None,
                        parts = Some [ascii ''draft''], create_time = Number 2\<rparr>\<rparr>)]
     = [\<lparr>m_id = ascii ''u'', role = user, content = ascii ''Hello'', timestamp = Date 1000\<rparr>]"
    by (simp add: specMessages_def exportNode_def specHasParts_def specTimestamp_def
          specSorted_def specRoleKept_def specMessage_def specContent_def trim_def
          isWhiteSpace_def dateOfSeconds_def newDate_def exampleEnv_def ascii_def)
  have 3: "parseConversation exampleEnv mixedExport
     = Inl (TypeError (ascii ''Cannot read properties of undefined (reading 'role')''))"
    by (simp add: parseConversation_def mixedExport_def messageNodes_def exportNode_def
          hasParts_def timeKey_def sort_key_def ascii_def)
  then have 4: "handleFileSelect exampleEnv (Array [Some mixedExport])
     = (\<lparr>success = True, imported = 0, skipped = 1, errors = []\<rparr>, [],
        [(ascii ''Failed to parse conversation:'' @ [32] @ ascii ''mix'',
          TypeError (ascii ''Cannot read properties of undefined (reading 'role')''))])"
    by (simp add: handleFileSelect_def) (simp add: mixedExport_def)
  from 1 2 3 4 show ?thesis by blast
qed

text \<open>
  C9, amended. A record parses without an error when it has a mapping and every node
  with a content part has an author; a record without a mapping, and a record with an
  authorless node that has a part, throw and emit nothing. For a record that parses
  without an error the loop of the source produces exactly the sequence the claim
  describes, \<open>specMessages\<close>, and the conversation is emitted when that sequence is not
  empty.

  The nodes the loop goes through are the nodes with at least one part in the stable
  order by timestamp: they are in ascending order of the creation time (a node without
  one is placed at \<open>0\<close>), they are the same nodes, and the nodes of one timestamp keep
  the order of the mapping. The number of messages is the number of nodes with parts, a
  role user or assistant and a content that is not empty after the trim: three for a
  record with three such nodes and a system node. An array with one such record gives one
  conversation, \<open>imported = 1\<close> and \<open>skipped = 0\<close>.
\<close>

theorem C9_messages:
  "parseConversation env conv =
     (case mapping conv of
        None \<Rightarrow> Inl (TypeError (ascii ''Cannot convert undefined or null to object''))
      | Some m' \<Rightarrow>
          if list_all hasAuthor (filter specHasParts (map snd m'))
          then Inr (if specMessages env m' = [] then None
                    else Some (specConversation env conv m'))
          else Inl (TypeError (ascii ''Cannot read properties of undefined (reading 'role')'')))
   \<and> messageNodes m = specSorted (filter specHasParts (map snd m))
   \<and> sorted (map specTimestamp (specSorted nodes))
   \<and> mset (specSorted nodes) = mset nodes
   \<and> filter (\<lambda>n. specTimestamp n = k) (specSorted nodes)
       = filter (\<lambda>n. specTimestamp n = k) nodes
   \<and> length (specMessages env m)
        = length (filter (\<lambda>n. specHasParts n \<and> specRoleKept n \<and> specContent n \<noteq> [])
                    (map snd m))
   \<and> (mapping conv = Some m \<and> list_all hasAuthor (filter specHasParts (map snd m))
        \<and> specMessages env m \<noteq> [] \<longrightarrow>
          handleFileSelect env (Array [Some conv])
            = (\<lparr>success = True, imported = 1, skipped = 0, errors = []\<rparr>,
               [specConversation env conv m], []))"
proof -
  have p: "parseConversation env conv =
     (case mapping conv of
        None \<Rightarrow> Inl (TypeError (ascii ''Cannot convert undefined or null to object''))
      | Some m' \<Rightarrow>
          if list_all hasAuthor (filter specHasParts (map snd m'))
          then Inr (if specMessages env m' = [] then None
                    else Some (specConversation env conv m'))
          else Inl (TypeError (ascii ''Cannot read properties of undefined (reading 'role')'')))"
  proof (cases "mapping conv")
    case None
    then show ?thesis by (simp add: parseConversation_def)
  next
    case (Some m')
    show ?thesis
    proof (cases "list_all hasAuthor (filter hasParts (map snd m'))")
      case True
      with Some parseConversation_spec [of conv m' env] show ?thesis
        by (simp add: specHasParts_eq)
    next
      case False
      with Some parseConversation_throws [of conv m' env] show ?thesis
        by (simp add: specHasParts_eq)
    qed
  qed
  have s: "sorted (map specTimestamp (specSorted nodes))"
    and ms: "mset (specSorted nodes) = mset nodes"
    and st: "filter (\<lambda>n. specTimestamp n = k) (specSorted nodes)
       = filter (\<lambda>n. specTimestamp n = k) nodes"
    by (simp_all add: specSorted_eq sort_key_stable)
  have h: "mapping conv = Some m \<and> list_all hasAuthor (filter specHasParts (map snd m))
        \<and> specMessages env m \<noteq> [] \<longrightarrow>
          handleFileSelect env (Array [Some conv])
            = (\<lparr>success = True, imported = 1, skipped = 0, errors = []\<rparr>,
               [specConversation env conv m], [])"
    using p by (simp add: handleFileSelect_def)
  from p s ms st h messageNodes_spec [of m] length_specMessages [of env m]
  show ?thesis by blast
qed

text \<open>
  Witness for C9: the record whose mapping lists the nodes c (assistant, two parts, at
  3), b (system, at 1), a (user, at 2) and d (user, blanks around the text, at 3) gives
  the three messages of a, c and d in this order: a moves before c, and c stays before d,
  which has the same timestamp. The record with an authorless node and the record
  without a mapping throw.
\<close>

theorem C9_messages_witness:
  "map fst (the (mapping exampleExport)) = [ascii ''c'', ascii ''b'', ascii ''a'', ascii ''d'']
   \<and> parseConversation exampleEnv exampleExport = Inr (Some (exampleImported exampleEnv))
   \<and> messages (exampleImported exampleEnv)
     = [\<lparr>m_id = ascii ''a'', role = user, content = ascii ''Hello'', timestamp = Date 2000\<rparr>,
        \<lparr>m_id = ascii ''c'', role = assistant, content = ascii ''Hi'' @ [10] @ ascii ''there'',
         timestamp = Date 3000\<rparr>,
        \<lparr>m_id = ascii ''d'', role = user, content = ascii ''bye'', timestamp = Date 3000\<rparr>]
   \<and> handleFileSelect exampleEnv (Array [Some exampleExport])
      = (\<lparr>success = True, imported = 1, skipped = 0, errors = []\<rparr>,
         [exampleImported exampleEnv], [])
   \<and> parseConversation exampleEnv mixedExport
      = Inl (TypeError (ascii ''Cannot read properties of undefined (reading 'role')''))
   \<and> parseConversation exampleEnv malformedExport
      = Inl (TypeError (ascii ''Cannot convert undefined or null to object''))"
proof -
  let ?m = "[exportNode ''c'' ''assistant'' [ascii ''Hi'', ascii ''there''] 3,
      exportNode ''b'' ''system'' [ascii ''You are helpful''] 1,
      exportNode ''a'' ''user'' [ascii ''Hello''] 2,
      exportNode ''d'' ''user'' [ascii '' bye ''] 3]"
  have a: "list_all hasAuthor (filter specHasParts (map snd ?m))"
    using example_authors by (simp add: specHasParts_eq)
  have ne: "specMessages exampleEnv ?m \<noteq> []"
    by (simp add: example_specMessages exampleMessages_def)
  have o: "map fst (the (mapping exampleExport))
      = [ascii ''c'', ascii ''b'', ascii ''a'', ascii ''d'']"
    by (simp add: exampleExport_def exportNode_def)
  have x: "mapping mixedExport = Some
     [exportNode ''u'' ''user'' [ascii ''Hello''] 1,
      (ascii ''x'',
       \<lparr>node_id = ascii ''x'',
        message = Some \<lparr>gm_id = ascii ''x'', author_role = None,
                        parts = Some [ascii ''draft''], create_time = Number 2\<rparr>\<rparr>)]
     \<and> \<not> list_all hasAuthor (filter specHasParts (map snd
     [exportNode ''u'' ''user'' [ascii ''Hello''] 1,
      (ascii ''x'',
       \<lparr>node_id = ascii ''x'',
        message = Some \<lparr>gm_id = ascii ''x'', author_role = None,
                        parts = Some [ascii ''draft''], create_time = Number 2\<rparr>\<rparr>)]))"
    by (simp add: mixedExport_def exportNode_def specHasParts_def hasAuthor_def)
  have b: "mapping malformedExport = None"
    by (simp add: malformedExport_def)
  from C9_messages [where env = exampleEnv and conv = exampleExport and m = ?m]
    example_mapping a ne
  have 1: "parseConversation exampleEnv exampleExport = Inr (Some (exampleImported exampleEnv))"
    and 2: "handleFileSelect exampleEnv (Array [Some exampleExport])
      = (\<lparr>success = True, imported = 1, skipped = 0, errors = []\<rparr>,
         [exampleImported exampleEnv], [])"
    by (simp_all add: example_conversation)
  from C9_messages [where env = exampleEnv and conv = mixedExport] x
  have 3: "parseConversation exampleEnv mixedExport
      = Inl (TypeError (ascii ''Cannot read properties of undefined (reading 'role')''))"
    by simp
  from C9_messages [where env = exampleEnv and conv = malformedExport] b
  have 4: "parseConversation exampleEnv malformedExport
      = Inl (TypeError (ascii ''Cannot convert undefined or null to object''))"
    by simp
  have 5: "messages (exampleImported exampleEnv)
     = [\<lparr>m_id = ascii ''a'', role = user, content = ascii ''Hello'', timestamp = Date 2000\<rparr>,
        \<lparr>m_id = ascii ''c'', role = assistant, content = ascii ''Hi'' @ [10] @ ascii ''there'',
         timestamp = Date 3000\<rparr>,
        \<lparr>m_id = ascii ''d'', role = user, content = ascii ''bye'', timestamp = Date 3000\<rparr>]"
    by (simp add: exampleImported_def exampleMessages_def)
  from o 1 2 3 4 5 show ?thesis by blast
qed

subsection \<open>C10: the chat route in demo mode\<close>

text \<open>
  C10, as stated, fails in the number of overrides: \<open>getMockResponse\<close> has three
  keyword branches, not two. Each of the three replies is returned for some request
  without settings, the three differ from each other, and none of them is among the five
  \<open>responses\<close>.
\<close>

theorem C10_counterexample:
  "\<not> hasApiKey None
   \<and> chat_message (response (chatPOST failingProvider 0 (saying KW_NAYAMI) None))
       = Some OVERRIDE_WORRY
   \<and> chat_message (response (chatPOST failingProvider 0 (saying KW_SHIGOTO) None))
       = Some OVERRIDE_WORK
   \<and> chat_message (response (chatPOST failingProvider 0 (saying KW_SEIRI) None))
       = Some OVERRIDE_ORGANIZE
   \<and> OVERRIDE_WORRY \<noteq> OVERRIDE_WORK \<and> OVERRIDE_WORRY \<noteq> OVERRIDE_ORGANIZE
   \<and> OVERRIDE_WORK \<noteq> OVERRIDE_ORGANIZE
   \<and> OVERRIDE_WORRY \<notin> set responses \<and> OVERRIDE_WORK \<notin> set responses
   \<and> OVERRIDE_ORGANIZE \<notin> set responses"
proof -
  have 1: "getMockResponse (saying KW_NAYAMI) 0 = Some OVERRIDE_WORRY"
    by (simp add: getMockResponse_def lastUserMessage_def saying_def KW_NAYAMI_def)
  have 2: "getMockResponse (saying KW_SHIGOTO) 0 = Some OVERRIDE_WORK"
    by (simp add: getMockResponse_def lastUserMessage_def saying_def KW_NAYAMI_def
          KW_KOMARU_def KW_SHIGOTO_def)
  have 3: "getMockResponse (saying KW_SEIRI) 0 = Some OVERRIDE_ORGANIZE"
    by (simp add: getMockResponse_def lastUserMessage_def saying_def KW_NAYAMI_def
          KW_KOMARU_def KW_SHIGOTO_def KW_YUSEN_def KW_SEIRI_def)
  have 4: "OVERRIDE_WORRY \<noteq> OVERRIDE_WORK \<and> OVERRIDE_WORRY \<noteq> OVERRIDE_ORGANIZE
     \<and> OVERRIDE_WORK \<noteq> OVERRIDE_ORGANIZE"
    by (simp add: OVERRIDE_WORRY_def OVERRIDE_WORK_def OVERRIDE_ORGANIZE_def)
  have 5: "OVERRIDE_WORRY \<notin> set responses"
    by (simp add: responses_def OVERRIDE_WORRY_def RESPONSE_0_def RESPONSE_1_def RESPONSE_2_def
          RESPONSE_3_def RESPONSE_4_def)
  have 6: "OVERRIDE_WORK \<notin> set responses"
    by (simp add: responses_def OVERRIDE_WORK_def RESPONSE_0_def RESPONSE_1_def RESPONSE_2_def
          RESPONSE_3_def RESPONSE_4_def)
  have 7: "OVERRIDE_ORGANIZE \<notin> set responses"
    by (simp add: responses_def OVERRIDE_ORGANIZE_def RESPONSE_0_def RESPONSE_1_def RESPONSE_2_def
          RESPONSE_3_def RESPONSE_4_def)
  have 8: "\<not> hasApiKey None" by (simp add: hasApiKey_def)
  from 1 2 3 4 5 6 7 8 show ?thesis
    by (simp add: chatPOST_demo)
qed

text \<open>
  C10, amended. Without an API key (no settings, or an empty key) the chat route makes no
  provider call, logs nothing and answers with the status 200 and the reply of
  \<open>getMockResponse\<close>. That reply is decided by the last user message, through three
  keyword branches tested in this order, each on either of two keywords; when no keyword
  occurs it is \<open>responses[floor(random * 5)]\<close>, one of the five fixed responses. So for
  every value of \<open>Math.random()\<close> the reply is one of five responses and three overrides.
\<close>

theorem C10_demo_mode:
  "(\<not> hasApiKey settings \<longrightarrow>
      chatPOST call random msgs settings =
        \<lparr>response = \<lparr>chat_status = 200, chat_message = getMockResponse msgs random,
                      chat_isDemo = True, chat_provider = ascii ''demo'', chat_error = None\<rparr>,
         providerCalls = [], serverConsole = []\<rparr>)
   \<and> (includes_str (lastUserMessage msgs) KW_NAYAMI \<or> includes_str (lastUserMessage msgs) KW_KOMARU
        \<longrightarrow> getMockResponse msgs random = Some OVERRIDE_WORRY)
   \<and> (\<not> includes_str (lastUserMessage msgs) KW_NAYAMI
        \<and> \<not> includes_str (lastUserMessage msgs) KW_KOMARU
        \<and> (includes_str (lastUserMessage msgs) KW_SHIGOTO
             \<or> includes_str (lastUserMessage msgs) KW_YUSEN)
        \<longrightarrow> getMockResponse msgs random = Some OVERRIDE_WORK)
   \<and> (\<not> includes_str (lastUserMessage msgs) KW_NAYAMI
        \<and> \<not> includes_str (lastUserMessage msgs) KW_KOMARU
        \<and> \<not> includes_str (lastUserMessage msgs) KW_SHIGOTO
        \<and> \<not> includes_str (lastUserMessage msgs) KW_YUSEN
        \<and> (includes_str (lastUserMessage msgs) KW_SEIRI
             \<or> includes_str (lastUserMessage msgs) KW_MATOME)
        \<longrightarrow> getMockResponse msgs random = Some OVERRIDE_ORGANIZE)
   \<and> (0 \<le> random \<and> random < 1
        \<and> \<not> includes_str (lastUserMessage msgs) KW_NAYAMI
        \<and> \<not> includes_str (lastUserMessage msgs) KW_KOMARU
        \<and> \<not> includes_str (lastUserMessage msgs) KW_SHIGOTO
        \<and> \<not> includes_str (lastUserMessage msgs) KW_YUSEN
        \<and> \<not> includes_str (lastUserMessage msgs) KW_SEIRI
        \<and> \<not> includes_str (lastUserMessage msgs) KW_MATOME
        \<longrightarrow> getMockResponse msgs random = Some (responses ! nat \<lfloor>random * 5\<rfloor>)
            \<and> responses ! nat \<lfloor>random * 5\<rfloor> \<in> set responses)
   \<and> (0 \<le> random \<and> random < 1 \<longrightarrow>
        (\<exists>reply. getMockResponse msgs random = Some reply
           \<and> reply \<in> set responses \<union> {OVERRIDE_WORRY, OVERRIDE_WORK, OVERRIDE_ORGANIZE}))"
proof (intro conjI impI)
  assume "\<not> hasApiKey settings"
  then show "chatPOST call random msgs settings =
        \<lparr>response = \<lparr>chat_status = 200, chat_message = getMockResponse msgs random,
                      chat_isDemo = True, chat_provider = ascii ''demo'', chat_error = None\<rparr>,
         providerCalls = [], serverConsole = []\<rparr>"
    by (rule chatPOST_demo)
next
  assume "includes_str (lastUserMessage msgs) KW_NAYAMI \<or> includes_str (lastUserMessage msgs) KW_KOMARU"
  then show "getMockResponse msgs random = Some OVERRIDE_WORRY"
    by (auto simp: getMockResponse_def)
next
  assume "\<not> includes_str (lastUserMessage msgs) KW_NAYAMI
        \<and> \<not> includes_str (lastUserMessage msgs) KW_KOMARU
        \<and> (includes_str (lastUserMessage msgs) KW_SHIGOTO
             \<or> includes_str (lastUserMessage msgs) KW_YUSEN)"
  then show "getMockResponse msgs random = Some OVERRIDE_WORK"
    by (auto simp: getMockResponse_def)
next
  assume "\<not> includes_str (lastUserMessage msgs) KW_NAYAMI
        \<and> \<not> includes_str (lastUserMessage msgs) KW_KOMARU
        \<and> \<not> includes_str (lastUserMessage msgs) KW_SHIGOTO
        \<and> \<not> includes_str (lastUserMessage msgs) KW_YUSEN
        \<and> (includes_str (lastUserMessage msgs) KW_SEIRI
             \<or> includes_str (lastUserMessage msgs) KW_MATOME)"
  then show "getMockResponse msgs random = Some OVERRIDE_ORGANIZE"
    by (auto simp: getMockResponse_def)
next
  assume a: "0 \<le> random \<and> random < 1
        \<and> \<not> includes_str (lastUserMessage msgs) KW_NAYAMI
        \<and> \<not> includes_str (lastUserMessage msgs) KW_KOMARU
        \<and> \<not> includes_str (lastUserMessage msgs) KW_SHIGOTO
        \<and> \<not> includes_str (lastUserMessage msgs) KW_YUSEN
        \<and> \<not> includes_str (lastUserMessage msgs) KW_SEIRI
        \<and> \<not> includes_str (lastUserMessage msgs) KW_MATOME"
  then show "getMockResponse msgs random = Some (responses ! nat \<lfloor>random * 5\<rfloor>)"
    and "responses ! nat \<lfloor>random * 5\<rfloor> \<in> set responses"
    using mock_random [of random msgs] by blast+
next
  assume r: "0 \<le> random \<and> random < 1"
  show "\<exists>reply. getMockResponse msgs random = Some reply
           \<and> reply \<in> set responses \<union> {OVERRIDE_WORRY, OVERRIDE_WORK, OVERRIDE_ORGANIZE}"
  proof (cases "includes_str (lastUserMessage msgs) KW_NAYAMI
        \<or> includes_str (lastUserMessage msgs) KW_KOMARU
        \<or> includes_str (lastUserMessage msgs) KW_SHIGOTO
        \<or> includes_str (lastUserMessage msgs) KW_YUSEN
        \<or> includes_str (lastUserMessage msgs) KW_SEIRI
        \<or> includes_str (lastUserMessage msgs) KW_MATOME")
    case True
    then show ?thesis by (auto simp: getMockResponse_def)
  next
    case False
    with r mock_random [of random msgs] show ?thesis by auto
  qed
qed

text \<open>
  Witness for C10: \<open>hello\<close> has no keyword, and with \<open>Math.random() = 1/2\<close> the reply is
  \<open>responses[2]\<close>; the sixth keyword alone gives the third override.
\<close>

theorem C10_demo_mode_witness:
  "chatPOST failingProvider (1 / 2) (saying (ascii ''hello'')) None
     = \<lparr>response = \<lparr>chat_status = 200, chat_message = Some RESPONSE_2,
                      chat_isDemo = True, chat_provider = ascii ''demo'', chat_error = None\<rparr>,
         providerCalls = [], serverConsole = []\<rparr>
   \<and> getMockResponse (saying KW_MATOME) (1 / 2) = Some OVERRIDE_ORGANIZE"
proof -
  have k: "\<not> includes_str (lastUserMessage (saying (ascii ''hello''))) KW_NAYAMI"
    "\<not> includes_str (lastUserMessage (saying (ascii ''hello''))) KW_KOMARU"
    "\<not> includes_str (lastUserMessage (saying (ascii ''hello''))) KW_SHIGOTO"
    "\<not> includes_str (lastUserMessage (saying (ascii ''hello''))) KW_YUSEN"
    "\<not> includes_str (lastUserMessage (saying (ascii ''hello''))) KW_SEIRI"
    "\<not> includes_str (lastUserMessage (saying (ascii ''hello''))) KW_MATOME"
    by (simp_all add: lastUserMessage_def saying_def ascii_def KW_NAYAMI_def KW_KOMARU_def
          KW_SHIGOTO_def KW_YUSEN_def KW_SEIRI_def KW_MATOME_def)
  have m: "\<not> includes_str (lastUserMessage (saying KW_MATOME)) KW_NAYAMI"
    "\<not> includes_str (lastUserMessage (saying KW_MATOME)) KW_KOMARU"
    "\<not> includes_str (lastUserMessage (saying KW_MATOME)) KW_SHIGOTO"
    "\<not> includes_str (lastUserMessage (saying KW_MATOME)) KW_YUSEN"
    "includes_str (lastUserMessage (saying KW_MATOME)) KW_MATOME"
    by (simp_all add: lastUserMessage_def saying_def ascii_def KW_NAYAMI_def KW_KOMARU_def
          KW_SHIGOTO_def KW_YUSEN_def KW_SEIRI_def KW_MATOME_def)
  have h: "\<not> hasApiKey None" by (simp add: hasApiKey_def)
  have r: "(0::rat) \<le> 1 / 2 \<and> (1::rat) / 2 < 1" by simp
  have f: "\<lfloor>(5::rat) / 2\<rfloor> = 2" by (rule floor_unique) simp_all
  from h k r
    C10_demo_mode [where settings = None and call = failingProvider and random = "1 / 2"
      and msgs = "saying (ascii ''hello'')"]
  have "chatPOST failingProvider (1 / 2) (saying (ascii ''hello'')) None
     = \<lparr>response = \<lparr>chat_status = 200,
                      chat_message = getMockResponse (saying (ascii ''hello'')) (1 / 2),
                      chat_isDemo = True, chat_provider = ascii ''demo'', chat_error = None\<rparr>,
         providerCalls = [], serverConsole = []\<rparr>"
    and "getMockResponse (saying (ascii ''hello'')) (1 / 2)
           = Some (responses ! nat \<lfloor>(1::rat) / 2 * 5\<rfloor>)"
    by blast+
  moreover from m
    C10_demo_mode [where random = "1 / 2" and msgs = "saying KW_MATOME"]
  have "getMockResponse (saying KW_MATOME) (1 / 2) = Some OVERRIDE_ORGANIZE"
    by blast
  ultimately show ?thesis
    by (simp add: f responses_def)
qed

end
